theory Spec2Isabelle
  imports Complex_Main
begin

section \<open>Data model\<close>

text \<open>
  The persisted records are the Prisma models the services read and write. Every table
  is a list of rows in insertion order, so that \<open>createMany\<close> can add several rows with
  the same key and \<open>findFirst\<close> has a first row to return. A stored amount or percentage
  is the rational number it denotes. The arithmetic the source does on them is the
  arithmetic of JavaScript numbers, whose results are rounded; its operations are
  taken from the environment below. Timestamps are natural numbers.
\<close>

datatype payment_status = PENDING | COMPLETED | FAILED

datatype analysis_status = A_PENDING_PAYMENT | A_PROCESSING | A_COMPLETED | A_FAILED

datatype distribution_status = D_pending | D_completed | D_failed

record user =
  u_id :: string
  u_email :: string
  u_walletId :: "string option"

record payment =
  p_id :: string
  p_userId :: string
  p_amount :: rat
  p_currency :: string
  p_status :: payment_status
  p_x402PaymentId :: "string option"
  p_transactionHash :: "string option"
  p_completedAt :: "nat option"

record parameters =
  symbol :: "string option"
  riskTolerance :: "string option"

record analysis_result =
  fullAnalysis :: string
  executiveSummary :: string
  cryptoData :: string
  marketData :: string
  fearGreedIndex :: nat
  generatedAt :: nat

record analysis =
  a_id :: string
  a_userId :: string
  a_type :: string
  a_parameters :: parameters
  a_status :: analysis_status
  a_price :: rat
  a_paymentId :: "string option"
  a_result :: "analysis_result option"
  a_completedAt :: "nat option"

record stakeholder =
  st_walletId :: string
  st_percentage :: rat
  st_type :: string
  st_isActive :: bool

record paymentDistribution =
  pd_paymentId :: string
  pd_recipient :: string
  pd_amount :: rat
  pd_type :: string
  pd_status :: distribution_status
  pd_txHash :: "string option"

text \<open>
  The state is the database together with the \<open>platformWallet\<close> field of the
  \<open>WalletService\<close> instance (\<open>null\<close> until \<open>initializePlatformWallet\<close> has run).
\<close>

record state =
  payments :: "payment list"
  analyses :: "analysis list"
  stakeholders :: "stakeholder list"
  paymentDistributions :: "paymentDistribution list"
  platformWallet :: "string option"

text \<open>
  Values of a JSON request body, as far as the handlers and Prisma look at them: a
  missing field, \<open>null\<close>, a string, the operation objects \<open>{set: "..."}\<close> and
  \<open>{set: null}\<close> that Prisma accepts in place of a string in the data of an update, and
  \<open>Other\<close> for every value Prisma refuses where a string is expected (a number, a
  boolean, an array, any other object).
\<close>

datatype jsval = Undefined | Null | Str string | SetOp "string option" | Other

record payload =
  reference :: jsval
  status :: jsval
  transaction_hash :: jsval

record headers =
  x_signature :: "string option"
  signature :: "string option"

text \<open>Exceptions thrown inside the services.\<close>

datatype error =
    Error string
  | PrismaValidationError
  | PrismaRecordNotFound
  | TransferError
  | AxiosError
  | DataError string
  | BedrockError string

text \<open>
  The effects a handler performs, in the order it performs them: writes to the database
  and calls to the external services.
\<close>

datatype event =
    PaymentCreate string
  | PaymentUpdate string payment_status
  | PaymentSetX402 string
  | AnalysisCreate string
  | AnalysisUpdate string analysis_status
  | AnalysisLink string string
  | DistributionCreateMany "paymentDistribution list"
  | DistributionUpdateMany string string string distribution_status "string option"
  | X402Post string rat
  | WalletCreateTransfer string rat
  | GetCryptoData string
  | GetMarketData
  | GetFearGreedIndex
  | GenerateAnalysis string
  | GenerateExecutiveSummary

text \<open>
  The environment answers for everything outside the repository: the clock, the
  identifiers the database gives to new rows, the payment gateway, the custodial wallet
  (the \<open>k\<close>-th transfer of one \<open>distributePayment\<close> call either yields a transaction hash
  or throws), the market data providers and the text generator. It also holds the
  arithmetic of JavaScript numbers: \<open>toNumber\<close> is \<open>Decimal.toNumber()\<close>, \<open>num_mul\<close> and
  \<open>num_div\<close> are \<open>*\<close> and \<open>/\<close> on numbers.
\<close>

record env =
  now :: nat
  new_analysis_id :: string
  new_payment_id :: string
  x402_post :: "string \<Rightarrow> rat \<Rightarrow> error + string option"
  createTransfer :: "nat \<Rightarrow> string \<Rightarrow> rat \<Rightarrow> error + string"
  getCryptoData :: "string \<Rightarrow> error + string"
  getMarketData :: "error + string"
  getFearGreedIndex :: nat
  generateAnalysis :: "string \<Rightarrow> string \<Rightarrow> string \<Rightarrow> nat \<Rightarrow> parameters \<Rightarrow> error + string"
  generateExecutiveSummary :: "string \<Rightarrow> error + string"
  toNumber :: "rat \<Rightarrow> rat"
  num_mul :: "rat \<Rightarrow> rat \<Rightarrow> rat"
  num_div :: "rat \<Rightarrow> rat \<Rightarrow> rat"

text \<open>HTTP responses: a status code and a JSON body.\<close>

datatype body =
    ErrorBody string
  | UnhandledError error
  | Received
  | AnalysisCreated string string rat
  | AnalysisBody analysis "payment option"
  | AnalysisCompleted string "analysis_result option"
  | PaymentBody payment "paymentDistribution list" "analysis option"

datatype response = Response nat body

section \<open>Database operations\<close>

text \<open>
  A database call fails only where Prisma itself refuses it: an \<open>update\<close> of a row
  that does not exist, or an argument of the wrong type. Connection failures are not
  modelled. The schema file is not part of the sources, so the uniqueness constraints
  it may declare appear as hypotheses where a statement needs them.
\<close>

definition payment_findUnique :: "state \<Rightarrow> string \<Rightarrow> payment option" where
  "payment_findUnique s pid = find (\<lambda>p. p_id p = pid) (payments s)"

text \<open>\<open>prisma.payment.update\<close> throws when no row has the identifier.\<close>

definition payment_update ::
  "string \<Rightarrow> (payment \<Rightarrow> payment) \<Rightarrow> state \<Rightarrow> error + payment \<times> state" where
  "payment_update pid f s =
     (case payment_findUnique s pid of
        None \<Rightarrow> Inl PrismaRecordNotFound
      | Some p \<Rightarrow>
          Inr (f p, s\<lparr>payments := map (\<lambda>q. if p_id q = pid then f q else q) (payments s)\<rparr>))"

definition analysis_findUnique :: "state \<Rightarrow> string \<Rightarrow> analysis option" where
  "analysis_findUnique s aid = find (\<lambda>a. a_id a = aid) (analyses s)"

definition analysis_update ::
  "string \<Rightarrow> (analysis \<Rightarrow> analysis) \<Rightarrow> state \<Rightarrow> error + analysis \<times> state" where
  "analysis_update aid f s =
     (case analysis_findUnique s aid of
        None \<Rightarrow> Inl PrismaRecordNotFound
      | Some a \<Rightarrow>
          Inr (f a, s\<lparr>analyses := map (\<lambda>b. if a_id b = aid then f b else b) (analyses s)\<rparr>))"

definition distribution_createMany :: "paymentDistribution list \<Rightarrow> state \<Rightarrow> state" where
  "distribution_createMany ds s = s\<lparr>paymentDistributions := paymentDistributions s @ ds\<rparr>"

definition distribution_matches :: "string \<Rightarrow> string \<Rightarrow> string \<Rightarrow> paymentDistribution \<Rightarrow> bool" where
  "distribution_matches pid recipient ty r =
     (pd_paymentId r = pid \<and> pd_recipient r = recipient \<and> pd_type r = ty)"

definition distribution_updateMany ::
  "string \<Rightarrow> string \<Rightarrow> string \<Rightarrow> (paymentDistribution \<Rightarrow> paymentDistribution) \<Rightarrow> state \<Rightarrow> state" where
  "distribution_updateMany pid recipient ty f s =
     s\<lparr>paymentDistributions :=
        map (\<lambda>r. if distribution_matches pid recipient ty r then f r else r)
          (paymentDistributions s)\<rparr>"

section \<open>WalletService.distributePayment\<close>

definition active_stakeholders :: "state \<Rightarrow> stakeholder list" where
  "active_stakeholders s = filter st_isActive (stakeholders s)"

text \<open>\<open>totalAmount * (stakeholder.percentage.toNumber() / 100)\<close>, on numbers.\<close>

definition share :: "env \<Rightarrow> rat \<Rightarrow> rat \<Rightarrow> rat" where
  "share e totalAmount percentage = num_mul e totalAmount (num_div e (toNumber e percentage) 100)"

definition pending_distribution :: "env \<Rightarrow> string \<Rightarrow> rat \<Rightarrow> stakeholder \<Rightarrow> paymentDistribution" where
  "pending_distribution e paymentId totalAmount st =
     \<lparr>pd_paymentId = paymentId, pd_recipient = st_walletId st,
      pd_amount = share e totalAmount (st_percentage st), pd_type = st_type st,
      pd_status = D_pending, pd_txHash = None\<rparr>"

text \<open>
  One pass of the loop \<open>for (const distribution of distributions)\<close>: the transfer is
  attempted, then the rows matching \<open>{paymentId, recipient, type}\<close> are marked, in the
  \<open>try\<close> block on success and in the \<open>catch\<close> block on failure.
\<close>

definition transfer_one :: "env \<Rightarrow> string \<Rightarrow> nat \<Rightarrow> paymentDistribution \<Rightarrow> state \<Rightarrow> state \<times> event list" where
  "transfer_one e paymentId k d s =
     (case createTransfer e k (pd_recipient d) (pd_amount d) of
        Inr tx \<Rightarrow>
          (distribution_updateMany paymentId (pd_recipient d) (pd_type d)
             (\<lambda>r. r\<lparr>pd_status := D_completed, pd_txHash := Some tx\<rparr>) s,
           [WalletCreateTransfer (pd_recipient d) (pd_amount d),
            DistributionUpdateMany paymentId (pd_recipient d) (pd_type d) D_completed (Some tx)])
      | Inl err \<Rightarrow>
          (distribution_updateMany paymentId (pd_recipient d) (pd_type d)
             (\<lambda>r. r\<lparr>pd_status := D_failed\<rparr>) s,
           [WalletCreateTransfer (pd_recipient d) (pd_amount d),
            DistributionUpdateMany paymentId (pd_recipient d) (pd_type d) D_failed None]))"

fun execute_transfers ::
  "env \<Rightarrow> string \<Rightarrow> nat \<Rightarrow> paymentDistribution list \<Rightarrow> state \<Rightarrow> state \<times> event list" where
  "execute_transfers e paymentId k [] s = (s, [])"
| "execute_transfers e paymentId k (d # ds) s =
     (let (s1, l1) = transfer_one e paymentId k d s;
          (s2, l2) = execute_transfers e paymentId (Suc k) ds s1
      in (s2, l1 @ l2))"

definition distributePayment ::
  "env \<Rightarrow> string \<Rightarrow> rat \<Rightarrow> state \<Rightarrow> (error + unit) \<times> state \<times> event list" where
  "distributePayment e paymentId totalAmount s =
     (if platformWallet s = None then (Inl (Error ''Platform wallet not initialized''), s, [])
      else case payment_findUnique s paymentId of
        None \<Rightarrow> (Inl (Error ''Payment not found''), s, [])
      | Some payment \<Rightarrow>
          (let distributions = map (pending_distribution e paymentId totalAmount) (active_stakeholders s);
               s1 = distribution_createMany distributions s;
               (s2, l2) = execute_transfers e paymentId 0 distributions s1
           in (Inr (), s2, DistributionCreateMany distributions # l2)))"

section \<open>PaymentService\<close>

definition processPaymentCompletion :: "payment \<Rightarrow> state \<Rightarrow> state \<times> event list" where
  "processPaymentCompletion payment s =
     (case find (\<lambda>a. a_paymentId a = Some (p_id payment)) (analyses s) of
        None \<Rightarrow> (s, [])
      | Some a \<Rightarrow>
          (s\<lparr>analyses := map (\<lambda>b. if a_id b = a_id a then b\<lparr>a_status := A_PROCESSING\<rparr> else b)
                (analyses s)\<rparr>,
           [AnalysisUpdate (a_id a) A_PROCESSING]))"

text \<open>
  The data of the \<open>completed\<close> update. A field whose value is \<open>undefined\<close> is left as it
  is by Prisma, a string or \<open>{set: "..."}\<close> is stored, \<open>null\<close> or \<open>{set: null}\<close> clears it, and
  a value Prisma refuses makes the update throw before anything is written.
\<close>

definition set_transactionHash :: "jsval \<Rightarrow> payment \<Rightarrow> payment" where
  "set_transactionHash h p =
     (case h of Str t \<Rightarrow> p\<lparr>p_transactionHash := Some t\<rparr>
              | Null \<Rightarrow> p\<lparr>p_transactionHash := None\<rparr>
              | SetOp v \<Rightarrow> p\<lparr>p_transactionHash := v\<rparr>
              | _ \<Rightarrow> p)"

definition complete_payment :: "env \<Rightarrow> jsval \<Rightarrow> payment \<Rightarrow> payment" where
  "complete_payment e h p =
     (set_transactionHash h p)\<lparr>p_status := COMPLETED, p_completedAt := Some (now e)\<rparr>"

text \<open>
  \<open>handlePaymentWebhook(payload, signature)\<close>. The signature check is commented out in
  the source, so the parameter is not read.
\<close>

definition handlePaymentWebhook ::
  "env \<Rightarrow> payload \<Rightarrow> string option \<Rightarrow> state \<Rightarrow> (error + unit) \<times> state \<times> event list" where
  "handlePaymentWebhook e pl sig s =
     (if status pl = Str ''completed'' then
        (case reference pl of
           Str paymentId \<Rightarrow>
             (if transaction_hash pl = Other then (Inl PrismaValidationError, s, [])
              else case payment_update paymentId (complete_payment e (transaction_hash pl)) s of
                Inl err \<Rightarrow> (Inl err, s, [])
              | Inr (payment, s1) \<Rightarrow>
                  (let (s2, l2) = processPaymentCompletion payment s1;
                       (r, s3, l3) = distributePayment e paymentId (toNumber e (p_amount payment)) s2
                   in (r, s3, PaymentUpdate paymentId COMPLETED # l2 @ l3)))
         | _ \<Rightarrow> (Inl PrismaValidationError, s, []))
      else if status pl = Str ''failed'' then
        (case reference pl of
           Str paymentId \<Rightarrow>
             (case payment_update paymentId (\<lambda>p. p\<lparr>p_status := FAILED\<rparr>) s of
                Inl err \<Rightarrow> (Inl err, s, [])
              | Inr (payment, s1) \<Rightarrow> (Inr (), s1, [PaymentUpdate paymentId FAILED]))
         | _ \<Rightarrow> (Inl PrismaValidationError, s, []))
      else (Inr (), s, []))"

definition getPaymentStatus ::
  "state \<Rightarrow> string \<Rightarrow> (payment \<times> paymentDistribution list \<times> analysis option) option" where
  "getPaymentStatus s paymentId =
     (case payment_findUnique s paymentId of
        None \<Rightarrow> None
      | Some p \<Rightarrow>
          Some (p, filter (\<lambda>d. pd_paymentId d = paymentId) (paymentDistributions s),
                find (\<lambda>a. a_paymentId a = Some paymentId) (analyses s)))"

section \<open>Routes of the payment service\<close>

text \<open>
  What the \<open>authenticate\<close> middleware hands to a route: it has either answered the
  request itself (401 or 500) or attached the user to it. Token checking is outside
  the model.
\<close>

datatype auth = Rejected nat string | Authenticated user

text \<open>\<open>errorHandler\<close>: an error without a \<open>status\<close> field is answered with 500.\<close>

definition errorHandler :: "error \<Rightarrow> response" where
  "errorHandler err = Response 500 (UnhandledError err)"

text \<open>\<open>req.headers['x-signature'] || req.headers['signature']\<close>; the empty string is falsy.\<close>

definition header_signature :: "headers \<Rightarrow> string option" where
  "header_signature h =
     (case x_signature h of
        Some v \<Rightarrow> (if v = [] then signature h else Some v)
      | None \<Rightarrow> signature h)"

definition webhook_route :: "env \<Rightarrow> headers \<Rightarrow> payload \<Rightarrow> state \<Rightarrow> response \<times> state \<times> event list" where
  "webhook_route e h pl s =
     (case handlePaymentWebhook e pl (header_signature h) s of
        (Inl err, s1, l) \<Rightarrow> (errorHandler err, s1, l)
      | (Inr u, s1, l) \<Rightarrow> (Response 200 Received, s1, l))"

definition payment_status_route :: "state \<Rightarrow> auth \<Rightarrow> string \<Rightarrow> response" where
  "payment_status_route s a paymentId =
     (case a of
        Rejected code msg \<Rightarrow> Response code (ErrorBody msg)
      | Authenticated req_user \<Rightarrow>
          (case getPaymentStatus s paymentId of
             None \<Rightarrow> Response 404 (ErrorBody ''Payment not found'')
           | Some (p, ds, an) \<Rightarrow> Response 200 (PaymentBody p ds an)))"

section \<open>Analysis controller\<close>

text \<open>\<open>config.pricing\<close>, an object keyed by camel-case names.\<close>

definition config_pricing :: "(string \<times> rat) list" where
  "config_pricing =
     [(''basicOverview'', 10), (''technicalAnalysis'', 25), (''fundamentalAnalysis'', 35),
      (''portfolioReview'', 45), (''marketSentiment'', 20), (''defiOpportunities'', 50)]"

text \<open>
  \<open>config.pricing[type]\<close> for a string \<open>type\<close>: an own property of the object, a member
  inherited from \<open>Object.prototype\<close> (a function or an object, hence truthy and not a
  number), or \<open>undefined\<close>.
\<close>

datatype property = Own rat | Inherited | Absent

definition object_prototype_names :: "string list" where
  "object_prototype_names =
     [''constructor'', ''__proto__'', ''hasOwnProperty'', ''isPrototypeOf'',
      ''propertyIsEnumerable'', ''toLocaleString'', ''toString'', ''valueOf'',
      ''__defineGetter__'', ''__defineSetter__'', ''__lookupGetter__'', ''__lookupSetter__'']"

definition pricing_lookup :: "string \<Rightarrow> property" where
  "pricing_lookup ty =
     (case map_of config_pricing ty of
        Some price \<Rightarrow> Own price
      | None \<Rightarrow> (if ty \<in> set object_prototype_names then Inherited else Absent))"

text \<open>The types the schema \<open>schemas.createAnalysis\<close> accepts.\<close>

definition schema_types :: "string list" where
  "schema_types =
     [''BASIC_OVERVIEW'', ''TECHNICAL_ANALYSIS'', ''FUNDAMENTAL_ANALYSIS'',
      ''PORTFOLIO_REVIEW'', ''MARKET_SENTIMENT'', ''DEFI_OPPORTUNITIES'']"

text \<open>
  The prices \<open>getAnalysisTypes\<close> advertises: each schema type with the entry of
  \<open>config.pricing\<close> the controller reads for it by name.
\<close>

definition getAnalysisTypes :: "(string \<times> property) list" where
  "getAnalysisTypes =
     [(''BASIC_OVERVIEW'', pricing_lookup ''basicOverview''),
      (''TECHNICAL_ANALYSIS'', pricing_lookup ''technicalAnalysis''),
      (''FUNDAMENTAL_ANALYSIS'', pricing_lookup ''fundamentalAnalysis''),
      (''PORTFOLIO_REVIEW'', pricing_lookup ''portfolioReview''),
      (''MARKET_SENTIMENT'', pricing_lookup ''marketSentiment''),
      (''DEFI_OPPORTUNITIES'', pricing_lookup ''defiOpportunities'')]"

definition schema_valid :: "string \<Rightarrow> parameters \<Rightarrow> bool" where
  "schema_valid ty ps =
     (ty \<in> set schema_types
      \<and> (case symbol ps of None \<Rightarrow> False | Some x \<Rightarrow> x \<noteq> [])
      \<and> (case riskTolerance ps of None \<Rightarrow> True
          | Some r \<Rightarrow> r \<in> set [''low'', ''medium'', ''high'']))"

text \<open>
  \<open>PaymentService.createPayment\<close>: the row is created before the gateway is called,
  with \<open>amount * 100\<close> computed on numbers.
\<close>

definition createPayment ::
  "env \<Rightarrow> string \<Rightarrow> string \<Rightarrow> rat \<Rightarrow> state \<Rightarrow> (error + string) \<times> state \<times> event list" where
  "createPayment e userId analysisType amount s =
     (let payment = \<lparr>p_id = new_payment_id e, p_userId = userId, p_amount = amount,
                     p_currency = ''USD'', p_status = PENDING, p_x402PaymentId = None,
                     p_transactionHash = None, p_completedAt = None\<rparr>;
          s1 = s\<lparr>payments := payments s @ [payment]\<rparr>
      in case x402_post e (p_id payment) (num_mul e amount 100) of
           Inl err \<Rightarrow> (Inl err, s1, [PaymentCreate (p_id payment), X402Post (p_id payment) (num_mul e amount 100)])
         | Inr x402id \<Rightarrow>
             (case payment_update (p_id payment)
                     (\<lambda>p. case x402id of None \<Rightarrow> p | Some i \<Rightarrow> p\<lparr>p_x402PaymentId := Some i\<rparr>) s1 of
                Inl err \<Rightarrow> (Inl err, s1, [PaymentCreate (p_id payment), X402Post (p_id payment) (num_mul e amount 100)])
              | Inr (p2, s2) \<Rightarrow>
                  (Inr (p_id payment), s2,
                   [PaymentCreate (p_id payment), X402Post (p_id payment) (num_mul e amount 100),
                    PaymentSetX402 (p_id payment)])))"

text \<open>
  \<open>createAnalysisRequest\<close>. \<open>!userId\<close> holds for a missing user and for the empty
  identifier; \<open>!price\<close> holds for a missing entry and for the price 0. An inherited
  member passes \<open>!price\<close> and is refused as a price by \<open>prisma.analysis.create\<close>. Every
  exception is answered with 500 by the \<open>catch\<close> block.
\<close>

definition createAnalysisRequest ::
  "env \<Rightarrow> user option \<Rightarrow> string \<Rightarrow> parameters \<Rightarrow> state \<Rightarrow> response \<times> state \<times> event list" where
  "createAnalysisRequest e req_user ty ps s =
     (case req_user of
        None \<Rightarrow> (Response 401 (ErrorBody ''User not authenticated''), s, [])
      | Some u \<Rightarrow>
          (if u_id u = [] then (Response 401 (ErrorBody ''User not authenticated''), s, [])
           else case pricing_lookup ty of
             Absent \<Rightarrow> (Response 400 (ErrorBody ''Invalid analysis type''), s, [])
           | Inherited \<Rightarrow> (Response 500 (ErrorBody ''Failed to create analysis request''), s, [])
           | Own price \<Rightarrow>
               (if price = 0 then (Response 400 (ErrorBody ''Invalid analysis type''), s, [])
                else
                  (let an = \<lparr>a_id = new_analysis_id e, a_userId = u_id u, a_type = ty,
                             a_parameters = ps, a_status = A_PENDING_PAYMENT, a_price = price,
                             a_paymentId = None, a_result = None, a_completedAt = None\<rparr>;
                       s1 = s\<lparr>analyses := analyses s @ [an]\<rparr>
                   in case createPayment e (u_id u) ty price s1 of
                        (Inl err, s2, l) \<Rightarrow>
                          (Response 500 (ErrorBody ''Failed to create analysis request''), s2,
                           AnalysisCreate (a_id an) # l)
                      | (Inr paymentId, s2, l) \<Rightarrow>
                          (case analysis_update (a_id an) (\<lambda>a. a\<lparr>a_paymentId := Some paymentId\<rparr>) s2 of
                             Inl err \<Rightarrow>
                               (Response 500 (ErrorBody ''Failed to create analysis request''), s2,
                                AnalysisCreate (a_id an) # l)
                           | Inr (a2, s3) \<Rightarrow>
                               (Response 200 (AnalysisCreated (a_id an) paymentId price), s3,
                                AnalysisCreate (a_id an) # l @ [AnalysisLink (a_id an) paymentId]))))))"

text \<open>The route \<open>POST /\<close>: \<open>authenticate\<close>, then \<open>validateRequest\<close>, then the controller.\<close>

definition create_analysis_route ::
  "env \<Rightarrow> auth \<Rightarrow> string \<Rightarrow> parameters \<Rightarrow> state \<Rightarrow> response \<times> state \<times> event list" where
  "create_analysis_route e a ty ps s =
     (case a of
        Rejected code msg \<Rightarrow> (Response code (ErrorBody msg), s, [])
      | Authenticated u \<Rightarrow>
          (if schema_valid ty ps then createAnalysisRequest e (Some u) ty ps s
           else (Response 400 (ErrorBody ''Validation error''), s, [])))"

text \<open>The payment that \<open>include: { payment: true }\<close> attaches to an analysis.\<close>

definition included_payment :: "state \<Rightarrow> analysis \<Rightarrow> payment option" where
  "included_payment s a =
     (case a_paymentId a of None \<Rightarrow> None | Some pid \<Rightarrow> payment_findUnique s pid)"

definition set_analysis_status :: "string \<Rightarrow> analysis_status \<Rightarrow> state \<Rightarrow> state" where
  "set_analysis_status aid st s =
     s\<lparr>analyses := map (\<lambda>b. if a_id b = aid then b\<lparr>a_status := st\<rparr> else b) (analyses s)\<rparr>"

text \<open>The \<open>catch\<close> block of \<open>processAnalysis\<close>.\<close>

definition process_failed :: "string \<Rightarrow> state \<Rightarrow> event list \<Rightarrow> response \<times> state \<times> event list" where
  "process_failed aid s l =
     (Response 500 (ErrorBody ''Failed to process analysis''),
      set_analysis_status aid A_FAILED s, l @ [AnalysisUpdate aid A_FAILED])"

text \<open>
  The generation pipeline of \<open>processAnalysis\<close>, entered once the payment gate has
  been passed. \<open>Promise.all\<close> starts both fetches before either result is looked at.
\<close>

definition generate_and_save :: "env \<Rightarrow> analysis \<Rightarrow> state \<Rightarrow> response \<times> state \<times> event list" where
  "generate_and_save e a s =
     (let (s1, l1) = (if a_status a \<noteq> A_PROCESSING
                      then (set_analysis_status (a_id a) A_PROCESSING s,
                            [AnalysisUpdate (a_id a) A_PROCESSING])
                      else (s, []));
          sym = (case symbol (a_parameters a) of
                   None \<Rightarrow> ''BTC'' | Some x \<Rightarrow> (if x = [] then ''BTC'' else x));
          l2 = l1 @ [GetCryptoData sym, GetMarketData]
      in case (getCryptoData e sym, getMarketData e) of
           (Inr cd, Inr md) \<Rightarrow>
             (let fg = getFearGreedIndex e;
                  l3 = l2 @ [GetFearGreedIndex, GenerateAnalysis (a_type a)]
              in case generateAnalysis e (a_type a) cd md fg (a_parameters a) of
                   Inl err \<Rightarrow> process_failed (a_id a) s1 l3
                 | Inr full \<Rightarrow>
                     (case generateExecutiveSummary e full of
                        Inl err \<Rightarrow> process_failed (a_id a) s1 (l3 @ [GenerateExecutiveSummary])
                      | Inr summary \<Rightarrow>
                          (let res = \<lparr>fullAnalysis = full, executiveSummary = summary,
                                      cryptoData = cd, marketData = md, fearGreedIndex = fg,
                                      generatedAt = now e\<rparr>;
                               s2 = s1\<lparr>analyses :=
                                      map (\<lambda>b. if a_id b = a_id a
                                                then b\<lparr>a_status := A_COMPLETED, a_result := Some res,
                                                       a_completedAt := Some (now e)\<rparr>
                                                else b) (analyses s1)\<rparr>
                           in (Response 200 (AnalysisCompleted (a_id a) (Some res)), s2,
                               l3 @ [GenerateExecutiveSummary, AnalysisUpdate (a_id a) A_COMPLETED]))))
         | _ \<Rightarrow> process_failed (a_id a) s1 l2)"

definition processAnalysis :: "env \<Rightarrow> string \<Rightarrow> state \<Rightarrow> response \<times> state \<times> event list" where
  "processAnalysis e analysisId s =
     (case analysis_findUnique s analysisId of
        None \<Rightarrow> (Response 404 (ErrorBody ''Analysis not found''), s, [])
      | Some a \<Rightarrow>
          (if map_option p_status (included_payment s a) \<noteq> Some COMPLETED
           then (Response 400 (ErrorBody ''Payment not completed''), s, [])
           else generate_and_save e a s))"

text \<open>
  \<open>getAnalysis\<close>: \<open>findFirst\<close> with the identifier and the requesting user in one
  \<open>where\<close> clause. A filter whose value is \<open>undefined\<close> (no user on the request) is
  dropped by Prisma.
\<close>

definition getAnalysis :: "state \<Rightarrow> user option \<Rightarrow> string \<Rightarrow> response" where
  "getAnalysis s req_user analysisId =
     (case find (\<lambda>a. a_id a = analysisId
                      \<and> (case req_user of None \<Rightarrow> True | Some u \<Rightarrow> a_userId a = u_id u))
             (analyses s) of
        None \<Rightarrow> Response 404 (ErrorBody ''Analysis not found'')
      | Some a \<Rightarrow> Response 200 (AnalysisBody a (included_payment s a)))"

section \<open>Derived notions used in the statements\<close>

fun is_transfer :: "event \<Rightarrow> bool" where
  "is_transfer (WalletCreateTransfer dest amt) = True"
| "is_transfer ev = False"


text \<open>What one pass of the transfer loop does to a single row of the table.\<close>

definition mark_one :: "env \<Rightarrow> string \<Rightarrow> nat \<Rightarrow> paymentDistribution \<Rightarrow> paymentDistribution \<Rightarrow> paymentDistribution" where
  "mark_one e pid k d r =
     (if distribution_matches pid (pd_recipient d) (pd_type d) r
      then (case createTransfer e k (pd_recipient d) (pd_amount d) of
              Inr tx \<Rightarrow> r\<lparr>pd_status := D_completed, pd_txHash := Some tx\<rparr>
            | Inl err \<Rightarrow> r\<lparr>pd_status := D_failed\<rparr>)
      else r)"


fun marks :: "env \<Rightarrow> string \<Rightarrow> nat \<Rightarrow> paymentDistribution list \<Rightarrow> paymentDistribution \<Rightarrow> paymentDistribution" where
  "marks e pid k [] r = r"
| "marks e pid k (d # ds) r = marks e pid (Suc k) ds (mark_one e pid k d r)"



section \<open>Numbers\<close>

text \<open>
  \<open>approximates u x y\<close>: the number \<open>y\<close> stands for the exact value \<open>x\<close> with a relative
  error of at most \<open>u\<close>. IEEE arithmetic rounds every result this way, with
  \<open>u = 2\<^sup>-\<^sup>5\<^sup>3\<close> for binary64, as long as the result neither overflows nor is subnormal.
\<close>

definition approximates :: "rat \<Rightarrow> rat \<Rightarrow> rat \<Rightarrow> bool" where
  "approximates u x y = (\<bar>y - x\<bar> \<le> u * \<bar>x\<bar>)"

definition unit_roundoff :: rat where
  "unit_roundoff = 1 / 2 ^ 53"

text \<open>
  The arithmetic of the examples is binary64: a result is replaced by the nearest number
  with a significand of 53 bits, a tie going to the even significand. \<open>exponent n x\<close>
  is the binary exponent of a positive \<open>x\<close>, found in at most \<open>n\<close> halvings or doublings.
  The exponent range of the format (overflow, subnormal numbers) is not modelled; the
  examples stay far from it.
\<close>

fun exponent :: "nat \<Rightarrow> rat \<Rightarrow> int" where
  "exponent 0 x = 0"
| "exponent (Suc n) x =
     (if 2 \<le> x then exponent n (x / 2) + 1
      else if x < 1 then exponent n (x * 2) - 1
      else 0)"

definition round_half_even :: "rat \<Rightarrow> int" where
  "round_half_even q =
     (let f = \<lfloor>q\<rfloor>; r = q - of_int f
      in if r < 1 / 2 then f
         else if 1 / 2 < r then f + 1
         else if even f then f else f + 1)"

definition pow2 :: "int \<Rightarrow> rat" where
  "pow2 k = (if 0 \<le> k then 2 ^ nat k else 1 / 2 ^ nat (- k))"

definition binary64 :: "rat \<Rightarrow> rat" where
  "binary64 x =
     (if x = 0 then 0
      else let ex = exponent 1100 \<bar>x\<bar>
           in sgn x * of_int (round_half_even (\<bar>x\<bar> * pow2 (52 - ex))) * pow2 (ex - 52))"

section \<open>Example data\<close>

definition alice :: user where
  "alice = \<lparr>u_id = ''u1'', u_email = ''alice@example.com'', u_walletId = None\<rparr>"

definition bob :: user where
  "bob = \<lparr>u_id = ''u2'', u_email = ''bob@example.com'', u_walletId = None\<rparr>"

definition pay1 :: payment where
  "pay1 = \<lparr>p_id = ''p1'', p_userId = ''u1'', p_amount = 25, p_currency = ''USD'',
           p_status = PENDING, p_x402PaymentId = Some ''x1'', p_transactionHash = None,
           p_completedAt = None\<rparr>"

definition btc :: parameters where
  "btc = \<lparr>symbol = Some ''BTC'', riskTolerance = None\<rparr>"

definition an1 :: analysis where
  "an1 = \<lparr>a_id = ''a1'', a_userId = ''u1'', a_type = ''TECHNICAL_ANALYSIS'',
          a_parameters = btc, a_status = A_PENDING_PAYMENT, a_price = 25,
          a_paymentId = Some ''p1'', a_result = None, a_completedAt = None\<rparr>"

definition platform_st :: stakeholder where
  "platform_st = \<lparr>st_walletId = ''w_platform'', st_percentage = 60, st_type = ''platform'',
                  st_isActive = True\<rparr>"

definition data_st :: stakeholder where
  "data_st = \<lparr>st_walletId = ''w_data'', st_percentage = 25, st_type = ''data_provider'',
              st_isActive = True\<rparr>"

definition research_st :: stakeholder where
  "research_st = \<lparr>st_walletId = ''w_research'', st_percentage = 15, st_type = ''researcher'',
                  st_isActive = True\<rparr>"

definition retired_st :: stakeholder where
  "retired_st = \<lparr>st_walletId = ''w_old'', st_percentage = 40, st_type = ''researcher'',
                 st_isActive = False\<rparr>"

text \<open>
  The state in which \<open>PaymentService\<close> finds itself after construction: its
  \<open>WalletService\<close> has no platform wallet yet.
\<close>

definition state0 :: state where
  "state0 = \<lparr>payments = [pay1], analyses = [an1],
             stakeholders = [platform_st, retired_st, data_st, research_st],
             paymentDistributions = [], platformWallet = None\<rparr>"

definition state_w :: state where
  "state_w = state0\<lparr>platformWallet := Some ''w0''\<rparr>"

text \<open>Two active stakeholder entries for the same wallet and type.\<close>

definition dup_st :: stakeholder where
  "dup_st = \<lparr>st_walletId = ''w_dup'', st_percentage = 50, st_type = ''researcher'',
             st_isActive = True\<rparr>"

definition state_dup :: state where
  "state_dup = state_w\<lparr>stakeholders := [dup_st, dup_st]\<rparr>"

text \<open>Shares of 1, 5 and 94 percent, to be taken of the amount 10.\<close>

definition one_st :: stakeholder where
  "one_st = \<lparr>st_walletId = ''w_one'', st_percentage = 1, st_type = ''researcher'',
             st_isActive = True\<rparr>"

definition five_st :: stakeholder where
  "five_st = \<lparr>st_walletId = ''w_five'', st_percentage = 5, st_type = ''data_provider'',
              st_isActive = True\<rparr>"

definition most_st :: stakeholder where
  "most_st = \<lparr>st_walletId = ''w_most'', st_percentage = 94, st_type = ''platform'',
              st_isActive = True\<rparr>"

definition state_odd :: state where
  "state_odd = state_w\<lparr>stakeholders := [one_st, five_st, most_st]\<rparr>"

text \<open>
  An environment in which the second transfer of every call fails, with binary64
  arithmetic.
\<close>

definition env1 :: env where
  "env1 = \<lparr>now = 100, new_analysis_id = ''a2'', new_payment_id = ''p2'',
           x402_post = (\<lambda>r a. Inr (Some ''x2'')),
           createTransfer = (\<lambda>k dest amt. if k = 1 then Inl TransferError else Inr (''0x'' @ dest)),
           getCryptoData = (\<lambda>sym. Inr ''quote''), getMarketData = Inr ''global'',
           getFearGreedIndex = 50,
           generateAnalysis = (\<lambda>ty cd md fg ps. Inr ''report''),
           generateExecutiveSummary = (\<lambda>t. Inr ''summary''),
           toNumber = binary64, num_mul = (\<lambda>a b. binary64 (a * b)),
           num_div = (\<lambda>a b. binary64 (a / b))\<rparr>"

definition env2 :: env where
  "env2 = env1\<lparr>now := 200\<rparr>"

definition completed_payload :: payload where
  "completed_payload = \<lparr>reference = Str ''p1'', status = Str ''completed'',
                        transaction_hash = Str ''0xabc''\<rparr>"

definition failed_payload :: payload where
  "failed_payload = \<lparr>reference = Str ''p1'', status = Str ''failed'',
                     transaction_hash = Undefined\<rparr>"

definition no_signature :: headers where
  "no_signature = \<lparr>x_signature = None, signature = None\<rparr>"

definition state_empty :: state where
  "state_empty = state0\<lparr>analyses := []\<rparr>"

text \<open>The rows an invocation has appended, read off the states before and after it.\<close>

definition new_rows :: "state \<Rightarrow> state \<Rightarrow> paymentDistribution list" where
  "new_rows s s' = drop (length (paymentDistributions s)) (paymentDistributions s')"

text \<open>The state \<open>state_w\<close> after one distribution of payment \<open>p1\<close> under \<open>env1\<close>.\<close>

definition state_paid :: state where
  "state_paid = state_w\<lparr>paymentDistributions :=
     [\<lparr>pd_paymentId = ''p1'', pd_recipient = ''w_platform'', pd_amount = 15,
       pd_type = ''platform'', pd_status = D_completed, pd_txHash = Some ''0xw_platform''\<rparr>,
      \<lparr>pd_paymentId = ''p1'', pd_recipient = ''w_data'', pd_amount = 25 / 4,
       pd_type = ''data_provider'', pd_status = D_failed, pd_txHash = None\<rparr>,
      \<lparr>pd_paymentId = ''p1'', pd_recipient = ''w_research'', pd_amount = 15 / 4,
       pd_type = ''researcher'', pd_status = D_completed, pd_txHash = Some ''0xw_research''\<rparr>]\<rparr>"

text \<open>The state \<open>state0\<close> after the "completed" notification for \<open>p1\<close> at time 100.\<close>

definition state_completed :: state where
  "state_completed = state0\<lparr>
     payments := [pay1\<lparr>p_status := COMPLETED, p_transactionHash := Some ''0xabc'',
                      p_completedAt := Some 100\<rparr>],
     analyses := [an1\<lparr>a_status := A_PROCESSING\<rparr>]\<rparr>"

text \<open>The state \<open>state_w\<close> after the "completed" notification for \<open>p1\<close> under \<open>env1\<close>.\<close>

definition state_paid_completed :: state where
  "state_paid_completed = state_paid\<lparr>payments := payments state_completed,
     analyses := analyses state_completed\<rparr>"

text \<open>
  The effects of the completion branch of the webhook handler, computed from the state
  it starts in: the payment update, the hook for the bound analysis, and the
  distribution.
\<close>

definition hook_effects :: "string \<Rightarrow> state \<Rightarrow> event list" where
  "hook_effects pid s =
     (case find (\<lambda>a. a_paymentId a = Some pid) (analyses s) of
        None \<Rightarrow> []
      | Some a \<Rightarrow> [AnalysisUpdate (a_id a) A_PROCESSING])"

definition distribution_effects :: "env \<Rightarrow> string \<Rightarrow> rat \<Rightarrow> state \<Rightarrow> event list" where
  "distribution_effects e pid X s =
     (if platformWallet s = None then []
      else DistributionCreateMany (map (pending_distribution e pid X) (active_stakeholders s))
             # snd (execute_transfers e pid 0
                      (map (pending_distribution e pid X) (active_stakeholders s)) s))"

section \<open>The payment gate of processAnalysis\<close>

text \<open>
  Claim C5. For every analysis whose linked payment is not \<open>COMPLETED\<close> (or that has no
  payment linked at all), \<open>processAnalysis\<close> answers 400 "Payment not completed"
  whatever the status of the analysis is; the state is returned as it was and no
  effect, in particular no call to a data provider or to the generator, is performed.
\<close>

theorem processAnalysis_payment_gate:
  assumes "analysis_findUnique s analysisId = Some a"
    and "\<forall>p. included_payment s a = Some p \<longrightarrow> p_status p \<noteq> COMPLETED"
  shows "processAnalysis e analysisId s =
           (Response 400 (ErrorBody ''Payment not completed''), s, [])"
proof -
  have "map_option p_status (included_payment s a) \<noteq> Some COMPLETED"
    using assms(2) by (cases "included_payment s a") auto
  then show ?thesis
    using assms(1) by (simp add: processAnalysis_def)
qed

theorem processAnalysis_payment_gate_witness:
  "analysis_findUnique state0 ''a1'' = Some an1
   \<and> included_payment state0 an1 = Some pay1 \<and> p_status pay1 = PENDING
   \<and> processAnalysis env1 ''a1'' state0 =
       (Response 400 (ErrorBody ''Payment not completed''), state0, [])"
proof -
  have a: "analysis_findUnique state0 ''a1'' = Some an1"
    by (simp add: analysis_findUnique_def state0_def an1_def)
  have b: "included_payment state0 an1 = Some pay1"
    by (simp add: included_payment_def payment_findUnique_def state0_def an1_def pay1_def)
  have c: "p_status pay1 = PENDING"
    by (simp add: pay1_def)
  have d: "\<forall>p. included_payment state0 an1 = Some p \<longrightarrow> p_status p \<noteq> COMPLETED"
    using b c by simp
  show ?thesis using a b c processAnalysis_payment_gate [OF a d, of env1] by simp
qed

section \<open>Ownership in getAnalysis and getPaymentStatus\<close>

text \<open>
  Claim C9. \<open>getAnalysis\<close> answers with an analysis only if that analysis has the
  requested identifier and belongs to the requesting user. In a state \<open>s1\<close> where the
  identifier does not exist and in a state \<open>s2\<close> where it exists but every analysis
  carrying it belongs to somebody else, the answers are the same 404 "Analysis not
  found".
\<close>

theorem getAnalysis_owner_or_not_found:
  assumes absent: "\<forall>a \<in> set (analyses s1). a_id a \<noteq> analysisId"
    and present: "\<exists>a \<in> set (analyses s2). a_id a = analysisId"
    and foreign: "\<forall>a \<in> set (analyses s2). a_id a = analysisId \<longrightarrow> a_userId a \<noteq> u_id u"
  shows "getAnalysis s1 (Some u) analysisId = Response 404 (ErrorBody ''Analysis not found'')
     \<and> getAnalysis s2 (Some u) analysisId = getAnalysis s1 (Some u) analysisId
     \<and> (\<forall>s a p. getAnalysis s (Some u) analysisId = Response 200 (AnalysisBody a p)
            \<longrightarrow> a \<in> set (analyses s) \<and> a_id a = analysisId \<and> a_userId a = u_id u)"
proof -
  have n1: "find (\<lambda>a. a_id a = analysisId \<and> a_userId a = u_id u) (analyses s1) = None"
    using absent by (auto simp: find_None_iff)
  have n2: "find (\<lambda>a. a_id a = analysisId \<and> a_userId a = u_id u) (analyses s2) = None"
    using foreign by (auto simp: find_None_iff)
  have r1: "getAnalysis s1 (Some u) analysisId = Response 404 (ErrorBody ''Analysis not found'')"
    using n1 by (simp add: getAnalysis_def)
  have r2: "getAnalysis s2 (Some u) analysisId = Response 404 (ErrorBody ''Analysis not found'')"
    using n2 by (simp add: getAnalysis_def)
  have pos: "a \<in> set (analyses s) \<and> a_id a = analysisId \<and> a_userId a = u_id u"
    if "getAnalysis s (Some u) analysisId = Response 200 (AnalysisBody a p)" for s a p
  proof (cases "find (\<lambda>a. a_id a = analysisId \<and> a_userId a = u_id u) (analyses s)")
    case None
    then show ?thesis using that by (simp add: getAnalysis_def)
  next
    case (Some b)
    then have "b = a" using that by (simp add: getAnalysis_def)
    with Some show ?thesis by (auto simp: find_Some_iff)
  qed
  show ?thesis
  proof (intro conjI allI impI)
    show "getAnalysis s1 (Some u) analysisId = Response 404 (ErrorBody ''Analysis not found'')"
      by (rule r1)
    show "getAnalysis s2 (Some u) analysisId = getAnalysis s1 (Some u) analysisId"
      by (simp only: r1 r2)
  next
    fix s a p
    assume "getAnalysis s (Some u) analysisId = Response 200 (AnalysisBody a p)"
    from pos [OF this]
    show "a \<in> set (analyses s)" and "a_id a = analysisId" and "a_userId a = u_id u"
      by simp_all
  qed
qed

theorem getAnalysis_owner_or_not_found_witness:
  "getAnalysis state_empty (Some bob) ''a1'' = Response 404 (ErrorBody ''Analysis not found'')
   \<and> getAnalysis state0 (Some bob) ''a1'' = getAnalysis state_empty (Some bob) ''a1''
   \<and> getAnalysis state0 (Some alice) ''a1'' = Response 200 (AnalysisBody an1 (Some pay1))
   \<and> a_userId an1 = u_id alice"
proof -
  have a: "\<forall>a \<in> set (analyses state_empty). a_id a \<noteq> ''a1''"
    by (simp add: state_empty_def)
  have b: "\<exists>a \<in> set (analyses state0). a_id a = ''a1''"
    by (simp add: state0_def an1_def)
  have c: "\<forall>a \<in> set (analyses state0). a_id a = ''a1'' \<longrightarrow> a_userId a \<noteq> u_id bob"
    by (simp add: state0_def an1_def bob_def)
  have d: "getAnalysis state0 (Some alice) ''a1'' = Response 200 (AnalysisBody an1 (Some pay1))"
    by (simp add: getAnalysis_def state0_def an1_def alice_def included_payment_def
        payment_findUnique_def pay1_def)
  from getAnalysis_owner_or_not_found [OF a b c]
  have "getAnalysis state_empty (Some bob) ''a1'' = Response 404 (ErrorBody ''Analysis not found'')"
    and "getAnalysis state0 (Some bob) ''a1'' = getAnalysis state_empty (Some bob) ''a1''"
    by simp_all
  then show ?thesis using d by (simp add: an1_def alice_def)
qed

text \<open>
  Claim C10. For an existing payment the status route answers every authenticated
  requester with the payment, its distributions and its linked analysis. The answer
  does not mention the requester: nothing compares the payment's owner with it.
\<close>

theorem getPaymentStatus_ignores_requester:
  assumes "payment_findUnique s paymentId = Some p"
  shows "payment_status_route s (Authenticated requester) paymentId =
           Response 200 (PaymentBody p
             (filter (\<lambda>d. pd_paymentId d = paymentId) (paymentDistributions s))
             (find (\<lambda>a. a_paymentId a = Some paymentId) (analyses s)))"
  using assms by (simp add: payment_status_route_def getPaymentStatus_def)

theorem getPaymentStatus_ignores_requester_witness:
  "payment_findUnique state0 ''p1'' = Some pay1 \<and> p_userId pay1 \<noteq> u_id bob
   \<and> payment_status_route state0 (Authenticated bob) ''p1'' =
       Response 200 (PaymentBody pay1 [] (Some an1))"
proof -
  have a: "payment_findUnique state0 ''p1'' = Some pay1"
    by (simp add: payment_findUnique_def state0_def pay1_def)
  have b: "p_userId pay1 \<noteq> u_id bob"
    by (simp add: pay1_def bob_def)
  have c: "filter (\<lambda>d. pd_paymentId d = ''p1'') (paymentDistributions state0) = []"
    by (simp add: state0_def)
  have d: "find (\<lambda>a. a_paymentId a = Some ''p1'') (analyses state0) = Some an1"
    by (simp add: state0_def an1_def)
  show ?thesis
    using a b getPaymentStatus_ignores_requester [OF a, of bob] by (simp add: c d)
qed

section \<open>The pricing lookup of createAnalysisRequest\<close>

text \<open>
  The table \<open>config.pricing\<close> is keyed by camel-case names, while the types the route
  accepts, and the types \<open>getAnalysisTypes\<close> advertises with a price, are upper-case
  names. No accepted type is a key of the table.
\<close>

lemma schema_types_have_no_price:
  "ty \<in> set schema_types \<Longrightarrow> pricing_lookup ty = Absent"
  unfolding schema_types_def
  by (elim disjE | simp add: pricing_lookup_def config_pricing_def object_prototype_names_def)+

lemma advertised_price_TECHNICAL_ANALYSIS:
  "map_of getAnalysisTypes ''TECHNICAL_ANALYSIS'' = Some (Own 25)"
  by (simp add: getAnalysisTypes_def pricing_lookup_def config_pricing_def)

lemma create_analysis_route_rejects_schema_types:
  assumes "schema_valid ty ps"
  shows "create_analysis_route e (Authenticated u) ty ps s =
    (if u_id u = [] then (Response 401 (ErrorBody ''User not authenticated''), s, [])
     else (Response 400 (ErrorBody ''Invalid analysis type''), s, []))"
proof -
  have "ty \<in> set schema_types" using assms by (simp add: schema_valid_def)
  then have "pricing_lookup ty = Absent" by (rule schema_types_have_no_price)
  then show ?thesis using assms
    by (simp add: create_analysis_route_def createAnalysisRequest_def)
qed

text \<open>
  A name inherited from \<open>Object.prototype\<close> is not refused by the lookup; the controller
  goes on and the \<open>catch\<close> block answers 500. The validation schema of the route lets no
  such name reach the controller.
\<close>

lemma createAnalysisRequest_inherited_name:
  "createAnalysisRequest e (Some alice) ''constructor'' ps s =
     (Response 500 (ErrorBody ''Failed to create analysis request''), s, [])"
  by (simp add: createAnalysisRequest_def pricing_lookup_def config_pricing_def
      object_prototype_names_def alice_def)

text \<open>
  Claim C4, at the input of the spec's scenario: an authenticated user asks for a
  \<open>TECHNICAL_ANALYSIS\<close> of \<open>BTC\<close>. The request passes validation, the lookup
  \<open>config.pricing['TECHNICAL_ANALYSIS']\<close> finds nothing, and the controller answers 400
  "Invalid analysis type" without creating an analysis or a payment.
\<close>

theorem createAnalysisRequest_TECHNICAL_ANALYSIS_rejected:
  "create_analysis_route env1 (Authenticated alice) ''TECHNICAL_ANALYSIS'' btc state0 =
     (Response 400 (ErrorBody ''Invalid analysis type''), state0, [])"
  by (simp add: create_analysis_route_def createAnalysisRequest_def schema_valid_def
      schema_types_def pricing_lookup_def config_pricing_def object_prototype_names_def
      btc_def alice_def)

section \<open>The webhook handler\<close>

lemma handlePaymentWebhook_ignores_signature:
  "handlePaymentWebhook e pl sig s = handlePaymentWebhook e pl sig' s"
  by (simp add: handlePaymentWebhook_def)

text \<open>
  Claim C3, at a request that carries no signature header. A "failed" notification is
  acknowledged with 200 and the payment becomes \<open>FAILED\<close>; a "completed" notification
  makes the payment \<open>COMPLETED\<close> and its analysis \<open>PROCESSING\<close> (the 500 comes from the
  distribution step that follows, the platform wallet not being initialised). Neither
  answer is 401.
\<close>

theorem webhook_without_signature_is_processed:
  "webhook_route env1 no_signature failed_payload state0 =
     (Response 200 Received, state0\<lparr>payments := [pay1\<lparr>p_status := FAILED\<rparr>]\<rparr>,
      [PaymentUpdate ''p1'' FAILED])
   \<and> webhook_route env1 no_signature completed_payload state0 =
     (Response 500 (UnhandledError (Error ''Platform wallet not initialized'')),
      state0\<lparr>payments := [pay1\<lparr>p_status := COMPLETED, p_transactionHash := Some ''0xabc'',
                                  p_completedAt := Some 100\<rparr>],
             analyses := [an1\<lparr>a_status := A_PROCESSING\<rparr>]\<rparr>,
      [PaymentUpdate ''p1'' COMPLETED, AnalysisUpdate ''a1'' A_PROCESSING])"
  by (simp add: webhook_route_def handlePaymentWebhook_def header_signature_def
      no_signature_def failed_payload_def completed_payload_def payment_update_def
      payment_findUnique_def state0_def pay1_def an1_def complete_payment_def
      set_transactionHash_def processPaymentCompletion_def distributePayment_def
      errorHandler_def env1_def)

section \<open>The transfer loop\<close>

text \<open>
  The loop changes nothing but the distribution table, and changes it row by row: the
  table after the loop is the table before it with \<open>marks\<close> applied to every row.
\<close>

lemma transfer_one_state:
  "fst (transfer_one e pid k d s) =
     s\<lparr>paymentDistributions := map (mark_one e pid k d) (paymentDistributions s)\<rparr>"
  by (cases "createTransfer e k (pd_recipient d) (pd_amount d)")
     (simp_all add: transfer_one_def distribution_updateMany_def mark_one_def)

lemma transfer_one_log:
  "filter is_transfer (snd (transfer_one e pid k d s)) =
     [WalletCreateTransfer (pd_recipient d) (pd_amount d)]"
  by (cases "createTransfer e k (pd_recipient d) (pd_amount d)")
     (simp_all add: transfer_one_def)

lemma transfer_one_log_indep:
  "snd (transfer_one e pid k d s) = snd (transfer_one e pid k d s')"
  by (cases "createTransfer e k (pd_recipient d) (pd_amount d)")
     (simp_all add: transfer_one_def)

lemma execute_transfers_state:
  "fst (execute_transfers e pid k ds s) =
     s\<lparr>paymentDistributions := map (marks e pid k ds) (paymentDistributions s)\<rparr>"
proof (induction ds arbitrary: k s)
  case Nil
  then show ?case by simp
next
  case (Cons d ds)
  have "fst (execute_transfers e pid k (d # ds) s) =
          fst (execute_transfers e pid (Suc k) ds (fst (transfer_one e pid k d s)))"
    by (simp add: split_beta Let_def)
  then show ?case
    by (simp add: Cons.IH transfer_one_state)
qed

lemma execute_transfers_log:
  "filter is_transfer (snd (execute_transfers e pid k ds s)) =
     map (\<lambda>d. WalletCreateTransfer (pd_recipient d) (pd_amount d)) ds"
proof (induction ds arbitrary: k s)
  case Nil
  then show ?case by simp
next
  case (Cons d ds)
  have "snd (execute_transfers e pid k (d # ds) s) =
          snd (transfer_one e pid k d s)
          @ snd (execute_transfers e pid (Suc k) ds (fst (transfer_one e pid k d s)))"
    by (simp add: split_beta Let_def)
  then show ?case
    by (simp add: Cons.IH transfer_one_log)
qed

lemma execute_transfers_log_indep:
  "snd (execute_transfers e pid k ds s) = snd (execute_transfers e pid k ds s')"
proof (induction ds arbitrary: k s s')
  case Nil
  then show ?case by simp
next
  case (Cons d ds)
  have "\<And>t. snd (execute_transfers e pid k (d # ds) t) =
          snd (transfer_one e pid k d t)
          @ snd (execute_transfers e pid (Suc k) ds (fst (transfer_one e pid k d t)))"
    by (simp add: split_beta Let_def)
  then show ?case
    using Cons.IH transfer_one_log_indep by metis
qed



lemma mark_one_fields:
  "pd_paymentId (mark_one e pid k d r) = pd_paymentId r"
  "pd_recipient (mark_one e pid k d r) = pd_recipient r"
  "pd_amount (mark_one e pid k d r) = pd_amount r"
  "pd_type (mark_one e pid k d r) = pd_type r"
  by (simp_all add: mark_one_def split: sum.splits)

lemma marks_fields:
  "pd_paymentId (marks e pid k ds r) = pd_paymentId r"
  "pd_recipient (marks e pid k ds r) = pd_recipient r"
  "pd_amount (marks e pid k ds r) = pd_amount r"
  "pd_type (marks e pid k ds r) = pd_type r"
  by (induction ds arbitrary: k r) (simp_all add: mark_one_fields)





lemma distributePayment_unfold:
  assumes "platformWallet s \<noteq> None" and "payment_findUnique s pid = Some p"
  shows "distributePayment e pid X s =
    (Inr (),
     s\<lparr>paymentDistributions :=
         map (marks e pid 0 (map (pending_distribution e pid X) (active_stakeholders s)))
           (paymentDistributions s @ map (pending_distribution e pid X) (active_stakeholders s))\<rparr>,
     DistributionCreateMany (map (pending_distribution e pid X) (active_stakeholders s))
       # snd (execute_transfers e pid 0 (map (pending_distribution e pid X) (active_stakeholders s)) s))"
proof -
  let ?rows = "map (pending_distribution e pid X) (active_stakeholders s)"
  let ?s1 = "distribution_createMany ?rows s"
  have "distributePayment e pid X s =
      (Inr (), fst (execute_transfers e pid 0 ?rows ?s1),
       DistributionCreateMany ?rows # snd (execute_transfers e pid 0 ?rows ?s1))"
    using assms by (simp add: distributePayment_def Let_def split_beta)
  moreover have "snd (execute_transfers e pid 0 ?rows ?s1) = snd (execute_transfers e pid 0 ?rows s)"
    by (rule execute_transfers_log_indep)
  ultimately show ?thesis
    by (simp add: execute_transfers_state distribution_createMany_def)
qed


lemma pending_distribution_fields:
  "pd_paymentId (pending_distribution e pid X st) = pid"
  "pd_recipient (pending_distribution e pid X st) = st_walletId st"
  "pd_amount (pending_distribution e pid X st) = share e X (st_percentage st)"
  "pd_type (pending_distribution e pid X st) = st_type st"
  "pd_status (pending_distribution e pid X st) = D_pending"
  by (simp_all add: pending_distribution_def)



lemma new_rows_distributePayment:
  "new_rows s (s\<lparr>paymentDistributions := map f (paymentDistributions s @ rows)\<rparr>) = map f rows"
  by (simp add: new_rows_def)


subsection \<open>The numbers of the examples\<close>

lemma env1_fields:
  "now env1 = 100"
  "createTransfer env1 = (\<lambda>k dest amt. if k = 1 then Inl TransferError else Inr (''0x'' @ dest))"
  "now env2 = 200"
  "createTransfer env2 = createTransfer env1"
  "toNumber env2 = toNumber env1"
  by (simp_all add: env1_def env2_def)

lemma env2_share: "share env2 X p = share env1 X p"
  by (simp add: share_def env2_def)

lemma env1_toNumber: "toNumber env1 25 = 25"
  by code_simp

lemma env1_shares:
  "share env1 25 60 = 15"
  "share env1 25 25 = 25 / 4"
  "share env1 25 15 = 15 / 4"
  "share env1 25 50 = 25 / 2"
  "share env1 10 1 = 3602879701896397 / 36028797018963968"
  "share env1 10 5 = 1 / 2"
  "share env1 10 94 = 1322932390540083 / 140737488355328"
  by code_simp+



subsection \<open>Failure isolation\<close>


text \<open>Facts about the example states.\<close>

lemma state_w_wallet: "platformWallet state_w \<noteq> None"
  by (simp add: state_w_def)


lemma state_w_active: "active_stakeholders state_w = [platform_st, data_st, research_st]"
  by (simp add: active_stakeholders_def state_w_def state0_def platform_st_def retired_st_def
      data_st_def research_st_def)






lemma state_dup_rows: "paymentDistributions state_dup = []"
  by (simp add: state_dup_def state_w_def state0_def)



subsection \<open>Rows are recorded before transfers\<close>

lemma marks_amounts: "map pd_amount (map (marks e pid k ds) rows) = map pd_amount rows"
  by (simp add: marks_fields comp_def)

lemma marks_recipients: "map pd_recipient (map (marks e pid k ds) rows) = map pd_recipient rows"
  by (simp add: marks_fields comp_def)

lemma marks_paymentIds: "map pd_paymentId (map (marks e pid k ds) rows) = map pd_paymentId rows"
  by (simp add: marks_fields comp_def)






subsection \<open>Amounts of the created rows\<close>

text \<open>Relative errors compose: a rounded multiple of an approximation.\<close>

lemma approximates_scale:
  fixes u v x y z c :: rat
  assumes u: "0 \<le> u" and v: "0 \<le> v"
    and xy: "approximates v x y" and yz: "approximates u (c * y) z"
  shows "approximates ((1 + u) * (1 + v) - 1) (c * x) z"
proof -
  have dxy: "\<bar>y - x\<bar> \<le> v * \<bar>x\<bar>" and dyz: "\<bar>z - c * y\<bar> \<le> u * \<bar>c * y\<bar>"
    using xy yz by (simp_all add: approximates_def)
  have "\<bar>y\<bar> \<le> \<bar>y - x\<bar> + \<bar>x\<bar>" by simp
  with dxy have y: "\<bar>y\<bar> \<le> (1 + v) * \<bar>x\<bar>" by (simp add: algebra_simps)
  have "u * \<bar>c\<bar> * \<bar>y\<bar> \<le> u * \<bar>c\<bar> * ((1 + v) * \<bar>x\<bar>)"
    using y u by (intro mult_left_mono) simp_all
  with dyz have one: "\<bar>z - c * y\<bar> \<le> u * \<bar>c\<bar> * ((1 + v) * \<bar>x\<bar>)"
    by (simp add: abs_mult algebra_simps)
  have "\<bar>c * y - c * x\<bar> = \<bar>c\<bar> * \<bar>y - x\<bar>"
    by (simp add: abs_mult right_diff_distrib [symmetric])
  also have "\<dots> \<le> \<bar>c\<bar> * (v * \<bar>x\<bar>)"
    using dxy by (intro mult_left_mono) simp_all
  finally have two: "\<bar>c * y - c * x\<bar> \<le> \<bar>c\<bar> * (v * \<bar>x\<bar>)" .
  have "\<bar>z - c * x\<bar> \<le> \<bar>z - c * y\<bar> + \<bar>c * y - c * x\<bar>" by simp
  with one two have "\<bar>z - c * x\<bar> \<le> u * \<bar>c\<bar> * ((1 + v) * \<bar>x\<bar>) + \<bar>c\<bar> * (v * \<bar>x\<bar>)"
    by linarith
  also have "\<dots> = ((1 + u) * (1 + v) - 1) * \<bar>c * x\<bar>"
    by (simp add: abs_mult algebra_simps)
  finally show ?thesis by (simp add: approximates_def)
qed

text \<open>
  The share of one stakeholder: three roundings, in \<open>toNumber\<close>, in the division and in
  the multiplication.
\<close>

lemma share_error:
  fixes u X p :: rat
  assumes u: "0 \<le> u"
    and conv: "approximates u p (toNumber e p)"
    and quot: "approximates u (toNumber e p / 100) (num_div e (toNumber e p) 100)"
    and prod: "approximates u (X * num_div e (toNumber e p) 100) (share e X p)"
  shows "\<bar>share e X p - X * (p / 100)\<bar> \<le> ((1 + u) ^ 3 - 1) * (\<bar>X\<bar> * (\<bar>p\<bar> / 100))"
proof -
  let ?t = "toNumber e p" and ?q = "num_div e (toNumber e p) 100"
  have "approximates u ((1 / 100) * ?t) ?q"
    using quot by simp
  from approximates_scale [OF u u conv this]
  have q: "approximates ((1 + u) * (1 + u) - 1) (p / 100) ?q"
    by simp
  have v: "0 \<le> (1 + u) * (1 + u) - 1"
    using u by (simp add: algebra_simps)
  from approximates_scale [OF u v q prod]
  have "approximates ((1 + u) * (1 + ((1 + u) * (1 + u) - 1)) - 1) (X * (p / 100)) (share e X p)" .
  moreover have "(1 + u) * (1 + ((1 + u) * (1 + u) - 1)) - 1 = (1 + u) ^ 3 - 1"
    by (simp add: power3_eq_cube)
  ultimately have "approximates ((1 + u) ^ 3 - 1) (X * (p / 100)) (share e X p)"
    by simp
  then show ?thesis
    by (simp add: approximates_def abs_mult)
qed

lemma sum_list_error:
  fixes f g b :: "'a \<Rightarrow> rat"
  assumes "\<And>x. x \<in> set xs \<Longrightarrow> \<bar>f x - g x\<bar> \<le> b x"
  shows "\<bar>sum_list (map f xs) - sum_list (map g xs)\<bar> \<le> sum_list (map b xs)"
  using assms
proof (induction xs)
  case Nil
  then show ?case by simp
next
  case (Cons x xs)
  have "\<bar>f x - g x\<bar> \<le> b x" using Cons.prems by simp
  moreover have "\<bar>sum_list (map f xs) - sum_list (map g xs)\<bar> \<le> sum_list (map b xs)"
    using Cons by simp
  ultimately show ?case by simp
qed

lemma exact_shares_sum:
  fixes X :: rat
  shows "sum_list (map (\<lambda>st. X * (st_percentage st / 100)) sts) =
           X * (sum_list (map st_percentage sts) / 100)"
  by (induction sts) (simp_all add: algebra_simps add_divide_distrib)

lemma bound_sum:
  fixes K X :: rat
  shows "sum_list (map (\<lambda>st. K * (\<bar>X\<bar> * (\<bar>st_percentage st\<bar> / 100))) sts) =
           \<bar>X\<bar> * (sum_list (map (\<lambda>st. \<bar>st_percentage st\<bar>) sts) / 100) * K"
  by (induction sts) (simp_all add: algebra_simps add_divide_distrib)

text \<open>
  Claim C8, as amended. Let the guards of \<open>distributePayment\<close> pass and let the
  percentages of the active stakeholders sum to 100. Then the call creates one row per
  active stakeholder, for that stakeholder's wallet, with the amount the source
  computes on numbers for \<open>X * (percentage / 100)\<close>. If the conversion, the division
  and the multiplication behind each amount are each rounded with a relative error of
  at most \<open>u\<close>, the amounts of the rows sum to \<open>X\<close> up to the stated tolerance, which is
  \<open>\<bar>X\<bar> * ((1 + u)\<^sup>3 - 1)\<close> when no percentage is negative.
\<close>

theorem distributePayment_amounts_sum:
  assumes wallet: "platformWallet s \<noteq> None"
    and found: "payment_findUnique s paymentId = Some p"
    and hundred: "sum_list (map st_percentage (active_stakeholders s)) = 100"
    and u: "0 \<le> u"
    and rounding: "\<forall>st \<in> set (active_stakeholders s).
        approximates u (st_percentage st) (toNumber e (st_percentage st))
        \<and> approximates u (toNumber e (st_percentage st) / 100)
             (num_div e (toNumber e (st_percentage st)) 100)
        \<and> approximates u (X * num_div e (toNumber e (st_percentage st)) 100)
             (num_mul e X (num_div e (toNumber e (st_percentage st)) 100))"
  shows "\<exists>s' l. distributePayment e paymentId X s = (Inr (), s', l)
     \<and> map pd_recipient (new_rows s s') = map st_walletId (active_stakeholders s)
     \<and> map pd_amount (new_rows s s') =
         map (\<lambda>st. num_mul e X (num_div e (toNumber e (st_percentage st)) 100))
           (active_stakeholders s)
     \<and> \<bar>sum_list (map pd_amount (new_rows s s')) - X\<bar>
         \<le> \<bar>X\<bar> * (sum_list (map (\<lambda>st. \<bar>st_percentage st\<bar>) (active_stakeholders s)) / 100)
             * ((1 + u) ^ 3 - 1)"
proof -
  let ?sts = "active_stakeholders s"
  let ?rows = "map (pending_distribution e paymentId X) ?sts"
  let ?s' = "s\<lparr>paymentDistributions :=
                map (marks e paymentId 0 ?rows) (paymentDistributions s @ ?rows)\<rparr>"
  let ?l = "DistributionCreateMany ?rows # snd (execute_transfers e paymentId 0 ?rows s)"
  have run: "distributePayment e paymentId X s = (Inr (), ?s', ?l)"
    using wallet found by (rule distributePayment_unfold)
  have new: "new_rows s ?s' = map (marks e paymentId 0 ?rows) ?rows"
    by (simp only: new_rows_distributePayment)
  have rec: "map pd_recipient (new_rows s ?s') = map st_walletId ?sts"
    by (simp only: new marks_recipients) (simp add: pending_distribution_def)
  have amt: "map pd_amount (new_rows s ?s') = map (\<lambda>st. share e X (st_percentage st)) ?sts"
    by (simp only: new marks_amounts) (simp add: pending_distribution_def)
  have each: "\<bar>share e X (st_percentage st) - X * (st_percentage st / 100)\<bar>
      \<le> ((1 + u) ^ 3 - 1) * (\<bar>X\<bar> * (\<bar>st_percentage st\<bar> / 100))"
    if "st \<in> set ?sts" for st
  proof (rule share_error [OF u])
    show "approximates u (st_percentage st) (toNumber e (st_percentage st))"
      using rounding that by blast
    show "approximates u (toNumber e (st_percentage st) / 100)
        (num_div e (toNumber e (st_percentage st)) 100)"
      using rounding that by blast
    show "approximates u (X * num_div e (toNumber e (st_percentage st)) 100)
        (share e X (st_percentage st))"
      using rounding that by (simp add: share_def)
  qed
  have "\<bar>sum_list (map (\<lambda>st. share e X (st_percentage st)) ?sts)
         - sum_list (map (\<lambda>st. X * (st_percentage st / 100)) ?sts)\<bar>
      \<le> sum_list (map (\<lambda>st. ((1 + u) ^ 3 - 1) * (\<bar>X\<bar> * (\<bar>st_percentage st\<bar> / 100))) ?sts)"
    by (rule sum_list_error) (rule each)
  then have total: "\<bar>sum_list (map pd_amount (new_rows s ?s')) - X\<bar>
      \<le> \<bar>X\<bar> * (sum_list (map (\<lambda>st. \<bar>st_percentage st\<bar>) ?sts) / 100) * ((1 + u) ^ 3 - 1)"
    by (simp only: amt exact_shares_sum hundred bound_sum)
  have amt': "map pd_amount (new_rows s ?s') =
      map (\<lambda>st. num_mul e X (num_div e (toNumber e (st_percentage st)) 100)) ?sts"
    by (simp only: amt share_def)
  from run rec amt' total show ?thesis by blast
qed

lemma state_odd_wallet: "platformWallet state_odd \<noteq> None"
  by (simp add: state_odd_def state_w_def)

lemma state_odd_payment: "payment_findUnique state_odd ''p1'' = Some pay1"
  by (simp add: payment_findUnique_def state_odd_def state_w_def state0_def pay1_def)

lemma state_odd_active: "active_stakeholders state_odd = [one_st, five_st, most_st]"
  by (simp add: active_stakeholders_def state_odd_def one_st_def five_st_def most_st_def)

lemma state_odd_rows: "paymentDistributions state_odd = []"
  by (simp add: state_odd_def state_w_def state0_def)

text \<open>The binary64 operations behind the shares of 1, 5 and 94 percent of 10.\<close>

lemma env1_conversions:
  "toNumber env1 1 = 1" "toNumber env1 5 = 5" "toNumber env1 94 = 94"
  by code_simp+

lemma env1_quotients:
  "num_div env1 1 100 = 5764607523034235 / 576460752303423488"
  "num_div env1 5 100 = 3602879701896397 / 72057594037927936"
  "num_div env1 94 100 = 2116691824864133 / 2251799813685248"
  by code_simp+

lemma env1_products:
  "num_mul env1 10 (5764607523034235 / 576460752303423488) = 3602879701896397 / 36028797018963968"
  "num_mul env1 10 (3602879701896397 / 72057594037927936) = 1 / 2"
  "num_mul env1 10 (2116691824864133 / 2251799813685248) = 1322932390540083 / 140737488355328"
  by code_simp+

theorem distributePayment_amounts_sum_witness:
  "platformWallet state_odd \<noteq> None \<and> payment_findUnique state_odd ''p1'' = Some pay1
   \<and> sum_list (map st_percentage (active_stakeholders state_odd)) = 100
   \<and> 0 \<le> unit_roundoff
   \<and> approximates unit_roundoff (1 / 100) (num_div env1 1 100)
   \<and> approximates unit_roundoff (5 / 100) (num_div env1 5 100)
   \<and> approximates unit_roundoff (94 / 100) (num_div env1 94 100)
   \<and> approximates unit_roundoff (10 * num_div env1 1 100) (num_mul env1 10 (num_div env1 1 100))
   \<and> approximates unit_roundoff (10 * num_div env1 5 100) (num_mul env1 10 (num_div env1 5 100))
   \<and> approximates unit_roundoff (10 * num_div env1 94 100) (num_mul env1 10 (num_div env1 94 100))
   \<and> map pd_amount (new_rows state_odd (fst (snd (distributePayment env1 ''p1'' 10 state_odd)))) =
       [3602879701896397 / 36028797018963968, 1 / 2, 1322932390540083 / 140737488355328]
   \<and> sum_list (map pd_amount
        (new_rows state_odd (fst (snd (distributePayment env1 ''p1'' 10 state_odd))))) =
       360287970189639629 / 36028797018963968
   \<and> \<bar>sum_list (map pd_amount
        (new_rows state_odd (fst (snd (distributePayment env1 ''p1'' 10 state_odd))))) - 10\<bar>
       \<le> 10 * ((1 + unit_roundoff) ^ 3 - 1)"
proof -
  have h: "sum_list (map st_percentage (active_stakeholders state_odd)) = 100"
    by (simp add: state_odd_active one_st_def five_st_def most_st_def)
  have u: "0 \<le> unit_roundoff"
    by (simp add: unit_roundoff_def)
  have q1: "approximates unit_roundoff (1 / 100) (num_div env1 1 100)"
    and q2: "approximates unit_roundoff (5 / 100) (num_div env1 5 100)"
    and q3: "approximates unit_roundoff (94 / 100) (num_div env1 94 100)"
    by (simp_all add: approximates_def unit_roundoff_def env1_quotients)
  have m1: "approximates unit_roundoff (10 * num_div env1 1 100) (num_mul env1 10 (num_div env1 1 100))"
    and m2: "approximates unit_roundoff (10 * num_div env1 5 100) (num_mul env1 10 (num_div env1 5 100))"
    and m3: "approximates unit_roundoff (10 * num_div env1 94 100) (num_mul env1 10 (num_div env1 94 100))"
    by (simp_all add: approximates_def unit_roundoff_def env1_quotients env1_products)
  have r: "\<forall>st \<in> set (active_stakeholders state_odd).
        approximates unit_roundoff (st_percentage st) (toNumber env1 (st_percentage st))
        \<and> approximates unit_roundoff (toNumber env1 (st_percentage st) / 100)
             (num_div env1 (toNumber env1 (st_percentage st)) 100)
        \<and> approximates unit_roundoff (10 * num_div env1 (toNumber env1 (st_percentage st)) 100)
             (num_mul env1 10 (num_div env1 (toNumber env1 (st_percentage st)) 100))"
    using q1 q2 q3 m1 m2 m3 u
    by (simp add: state_odd_active one_st_def five_st_def most_st_def env1_conversions
        approximates_def)
  from distributePayment_amounts_sum [OF state_odd_wallet state_odd_payment h u r]
  obtain s' l where run: "distributePayment env1 ''p1'' 10 state_odd = (Inr (), s', l)"
    and amt: "map pd_amount (new_rows state_odd s') =
         map (\<lambda>st. num_mul env1 10 (num_div env1 (toNumber env1 (st_percentage st)) 100))
           (active_stakeholders state_odd)"
    and total: "\<bar>sum_list (map pd_amount (new_rows state_odd s')) - 10\<bar>
         \<le> \<bar>10\<bar> * (sum_list (map (\<lambda>st. \<bar>st_percentage st\<bar>) (active_stakeholders state_odd)) / 100)
             * ((1 + unit_roundoff) ^ 3 - 1)"
    by blast
  have vals: "map pd_amount (new_rows state_odd s') =
       [3602879701896397 / 36028797018963968, 1 / 2, 1322932390540083 / 140737488355328]"
    by (simp add: amt state_odd_active one_st_def five_st_def most_st_def env1_conversions
        env1_quotients env1_products)
  have sum: "sum_list (map pd_amount (new_rows state_odd s')) =
       360287970189639629 / 36028797018963968"
    by (simp add: vals)
  have "sum_list (map (\<lambda>st. \<bar>st_percentage st\<bar>) (active_stakeholders state_odd)) = 100"
    by (simp add: state_odd_active one_st_def five_st_def most_st_def)
  with total have bound: "\<bar>sum_list (map pd_amount (new_rows state_odd s')) - 10\<bar>
       \<le> 10 * ((1 + unit_roundoff) ^ 3 - 1)"
    by simp
  show ?thesis
    using state_odd_wallet state_odd_payment h u q1 q2 q3 m1 m2 m3 vals sum bound
    by (simp add: run)
qed

text \<open>
  Claim C8 as stated fails where a guard stops the call: the percentages of the active
  stakeholders of \<open>state_w\<close> sum to 100, there is no payment \<open>p9\<close>, and the invocation for
  \<open>p9\<close> creates no row.
\<close>

theorem distributePayment_no_payment_counterexample:
  "sum_list (map st_percentage (active_stakeholders state_w)) = 100
   \<and> distributePayment env1 ''p9'' 25 state_w = (Inl (Error ''Payment not found''), state_w, [])"
  by (simp add: state_w_active distributePayment_def state_w_wallet payment_findUnique_def
      platform_st_def data_st_def research_st_def)
     (simp add: state_w_def state0_def pay1_def)


subsection \<open>Repeated distribution of one payment\<close>

text \<open>
  Claim C2, as amended. \<open>distributePayment\<close> never looks at the rows that exist: once
  its guards pass (platform wallet initialised, payment found) every call appends one
  row per active stakeholder for the payment and attempts one transfer per active
  stakeholder, also when rows for that payment are already there.
\<close>

theorem distributePayment_appends_rows_every_time:
  assumes wallet: "platformWallet s \<noteq> None"
    and found: "payment_findUnique s paymentId = Some p"
  shows "\<exists>s' l. distributePayment e paymentId X s = (Inr (), s', l)
     \<and> length (paymentDistributions s') =
         length (paymentDistributions s) + length (active_stakeholders s)
     \<and> map pd_paymentId (new_rows s s') = replicate (length (active_stakeholders s)) paymentId
     \<and> filter is_transfer l =
         map (\<lambda>st. WalletCreateTransfer (st_walletId st) (share e X (st_percentage st)))
           (active_stakeholders s)"
proof -
  let ?sts = "active_stakeholders s"
  let ?rows = "map (pending_distribution e paymentId X) ?sts"
  let ?s' = "s\<lparr>paymentDistributions :=
                map (marks e paymentId 0 ?rows) (paymentDistributions s @ ?rows)\<rparr>"
  let ?l = "DistributionCreateMany ?rows # snd (execute_transfers e paymentId 0 ?rows s)"
  have run: "distributePayment e paymentId X s = (Inr (), ?s', ?l)"
    using wallet found by (rule distributePayment_unfold)
  have len: "length (paymentDistributions ?s') = length (paymentDistributions s) + length ?sts"
    by simp
  have new: "new_rows s ?s' = map (marks e paymentId 0 ?rows) ?rows"
    by (simp only: new_rows_distributePayment)
  have "map pd_paymentId (new_rows s ?s') = map pd_paymentId ?rows"
    by (simp only: new marks_paymentIds)
  then have ids: "map pd_paymentId (new_rows s ?s') = replicate (length ?sts) paymentId"
    by (simp add: pending_distribution_def comp_def map_replicate_const)
  have log: "filter is_transfer ?l =
      map (\<lambda>st. WalletCreateTransfer (st_walletId st) (share e X (st_percentage st))) ?sts"
    by (simp add: execute_transfers_log pending_distribution_def)
  from run len ids log show ?thesis by blast
qed

lemma state_paid_wallet: "platformWallet state_paid \<noteq> None"
  by (simp add: state_paid_def state_w_def)

lemma state_paid_payment: "payment_findUnique state_paid ''p1'' = Some pay1"
  by (simp add: payment_findUnique_def state_paid_def state_w_def state0_def pay1_def)

lemma state_paid_active: "active_stakeholders state_paid = [platform_st, data_st, research_st]"
  by (simp add: active_stakeholders_def state_paid_def state_w_def state0_def platform_st_def
      retired_st_def data_st_def research_st_def)

theorem distributePayment_appends_rows_every_time_witness:
  "platformWallet state_paid \<noteq> None \<and> payment_findUnique state_paid ''p1'' = Some pay1
   \<and> map pd_paymentId (paymentDistributions state_paid) = [''p1'', ''p1'', ''p1'']
   \<and> length (paymentDistributions (fst (snd (distributePayment env1 ''p1'' 25 state_paid)))) = 6
   \<and> filter is_transfer (snd (snd (distributePayment env1 ''p1'' 25 state_paid))) =
       [WalletCreateTransfer ''w_platform'' 15, WalletCreateTransfer ''w_data'' (25 / 4),
        WalletCreateTransfer ''w_research'' (15 / 4)]"
proof -
  from distributePayment_appends_rows_every_time [OF state_paid_wallet state_paid_payment, of env1 25]
  obtain s' l where run: "distributePayment env1 ''p1'' 25 state_paid = (Inr (), s', l)"
    and len: "length (paymentDistributions s') =
         length (paymentDistributions state_paid) + length (active_stakeholders state_paid)"
    and log: "filter is_transfer l =
         map (\<lambda>st. WalletCreateTransfer (st_walletId st) (share env1 25 (st_percentage st)))
           (active_stakeholders state_paid)"
    by blast
  have old: "map pd_paymentId (paymentDistributions state_paid) = [''p1'', ''p1'', ''p1'']"
    by (simp add: state_paid_def)
  have six: "length (paymentDistributions s') = 6"
    by (simp add: len state_paid_active) (simp add: state_paid_def)
  have tr: "filter is_transfer l =
       [WalletCreateTransfer ''w_platform'' 15, WalletCreateTransfer ''w_data'' (25 / 4),
        WalletCreateTransfer ''w_research'' (15 / 4)]"
    by (simp add: log state_paid_active platform_st_def data_st_def research_st_def env1_shares)
  show ?thesis
    using state_paid_wallet state_paid_payment old six tr by (simp add: run)
qed

lemma state_paid_rows:
  "paymentDistributions state_paid =
     [\<lparr>pd_paymentId = ''p1'', pd_recipient = ''w_platform'', pd_amount = 15,
       pd_type = ''platform'', pd_status = D_completed, pd_txHash = Some ''0xw_platform''\<rparr>,
      \<lparr>pd_paymentId = ''p1'', pd_recipient = ''w_data'', pd_amount = 25 / 4,
       pd_type = ''data_provider'', pd_status = D_failed, pd_txHash = None\<rparr>,
      \<lparr>pd_paymentId = ''p1'', pd_recipient = ''w_research'', pd_amount = 15 / 4,
       pd_type = ''researcher'', pd_status = D_completed, pd_txHash = Some ''0xw_research''\<rparr>]"
  by (simp add: state_paid_def)

text \<open>
  Claim C2 as stated fails: \<open>state_paid\<close> already holds three rows for payment \<open>p1\<close>;
  another call leaves six rows for \<open>p1\<close> and attempts three more transfers.
\<close>

theorem distributePayment_existing_rows_counterexample:
  "map pd_paymentId (paymentDistributions state_paid) = [''p1'', ''p1'', ''p1'']
   \<and> map pd_paymentId
       (paymentDistributions (fst (snd (distributePayment env1 ''p1'' 25 state_paid)))) =
       [''p1'', ''p1'', ''p1'', ''p1'', ''p1'', ''p1'']
   \<and> filter is_transfer (snd (snd (distributePayment env1 ''p1'' 25 state_paid))) =
       [WalletCreateTransfer ''w_platform'' 15, WalletCreateTransfer ''w_data'' (25 / 4),
        WalletCreateTransfer ''w_research'' (15 / 4)]"
proof -
  have old: "map pd_paymentId (paymentDistributions state_paid) = [''p1'', ''p1'', ''p1'']"
    by (simp add: state_paid_rows)
  have new: "map pd_paymentId
       (paymentDistributions (fst (snd (distributePayment env1 ''p1'' 25 state_paid)))) =
       [''p1'', ''p1'', ''p1'', ''p1'', ''p1'', ''p1'']"
    by (simp add: distributePayment_unfold [OF state_paid_wallet state_paid_payment]
        state_paid_active mark_one_fields state_paid_rows pending_distribution_fields)
  have tr: "filter is_transfer (snd (snd (distributePayment env1 ''p1'' 25 state_paid))) =
       [WalletCreateTransfer ''w_platform'' 15, WalletCreateTransfer ''w_data'' (25 / 4),
        WalletCreateTransfer ''w_research'' (15 / 4)]"
  proof -
    have "filter is_transfer (snd (snd (distributePayment env1 ''p1'' 25 state_paid))) =
        map (\<lambda>d. WalletCreateTransfer (pd_recipient d) (pd_amount d))
          (map (pending_distribution env1 ''p1'' 25) (active_stakeholders state_paid))"
      by (simp only: distributePayment_unfold [OF state_paid_wallet state_paid_payment]
          snd_conv filter.simps is_transfer.simps if_False execute_transfers_log)
    then show ?thesis
      by (simp add: state_paid_active pending_distribution_def platform_st_def
          data_st_def research_st_def env1_shares)
  qed
  from old new tr show ?thesis by simp
qed


section \<open>Repeated webhook deliveries\<close>

lemma find_map_preserving:
  "(\<And>x. P (f x) = P x) \<Longrightarrow> find P (map f xs) = map_option f (find P xs)"
  by (induction xs) simp_all

lemma complete_payment_fields:
  "p_id (complete_payment e h p) = p_id p"
  "p_amount (complete_payment e h p) = p_amount p"
  "p_status (complete_payment e h p) = COMPLETED"
  "p_completedAt (complete_payment e h p) = Some (now e)"
  by (simp_all add: complete_payment_def set_transactionHash_def split: jsval.splits)

lemma complete_payment_again:
  "complete_payment e2 h (complete_payment e1 h p) =
     (complete_payment e1 h p)\<lparr>p_completedAt := Some (now e2)\<rparr>"
  by (simp add: complete_payment_def set_transactionHash_def split: jsval.splits)

lemma payment_findUnique_updated:
  assumes "\<And>q. p_id (f q) = p_id q"
    and "payments s' = map (\<lambda>q. if p_id q = pid then f q else q) (payments s)"
  shows "payment_findUnique s' pid = map_option f (payment_findUnique s pid)"
proof -
  have "find (\<lambda>q. p_id q = pid) (map (\<lambda>q. if p_id q = pid then f q else q) (payments s)) =
        map_option (\<lambda>q. if p_id q = pid then f q else q) (find (\<lambda>q. p_id q = pid) (payments s))"
    by (rule find_map_preserving) (simp add: assms(1))
  also have "\<dots> = map_option f (find (\<lambda>q. p_id q = pid) (payments s))"
  proof (cases "find (\<lambda>q. p_id q = pid) (payments s)")
    case None
    then show ?thesis by simp
  next
    case (Some q)
    then have "p_id q = pid" by (auto simp: find_Some_iff)
    with Some show ?thesis by simp
  qed
  finally show ?thesis by (simp add: payment_findUnique_def assms(2))
qed

lemma processPaymentCompletion_frame:
  "payments (fst (processPaymentCompletion pm s)) = payments s"
  "stakeholders (fst (processPaymentCompletion pm s)) = stakeholders s"
  "paymentDistributions (fst (processPaymentCompletion pm s)) = paymentDistributions s"
  "platformWallet (fst (processPaymentCompletion pm s)) = platformWallet s"
  by (simp_all add: processPaymentCompletion_def split: option.splits)

lemma processPaymentCompletion_log:
  "snd (processPaymentCompletion pm s) = hook_effects (p_id pm) s"
  by (simp add: processPaymentCompletion_def hook_effects_def split: option.splits)

lemma hook_effects_status_update:
  "hook_effects pid (s\<lparr>analyses := map (\<lambda>b. if a_id b = aid then b\<lparr>a_status := st\<rparr> else b) (analyses s)\<rparr>)
     = hook_effects pid s"
proof -
  let ?f = "\<lambda>b. if a_id b = aid then b\<lparr>a_status := st\<rparr> else b"
  have "find (\<lambda>a. a_paymentId a = Some pid) (map ?f (analyses s)) =
        map_option ?f (find (\<lambda>a. a_paymentId a = Some pid) (analyses s))"
    by (rule find_map_preserving) simp
  then show ?thesis
    by (cases "find (\<lambda>a. a_paymentId a = Some pid) (analyses s)") (simp_all add: hook_effects_def)
qed

lemma hook_effects_after_hook:
  "hook_effects pid (fst (processPaymentCompletion pm s)) = hook_effects pid s"
proof (cases "find (\<lambda>a. a_paymentId a = Some (p_id pm)) (analyses s)")
  case None
  then show ?thesis by (simp add: processPaymentCompletion_def)
next
  case (Some a)
  then have "fst (processPaymentCompletion pm s) =
      s\<lparr>analyses := map (\<lambda>b. if a_id b = a_id a then b\<lparr>a_status := A_PROCESSING\<rparr> else b) (analyses s)\<rparr>"
    by (simp add: processPaymentCompletion_def)
  then show ?thesis by (simp only: hook_effects_status_update)
qed

lemma hook_effects_cong:
  "analyses s = analyses s' \<Longrightarrow> hook_effects pid s = hook_effects pid s'"
  by (simp add: hook_effects_def)

lemma distributePayment_frame:
  "payments (fst (snd (distributePayment e pid X s))) = payments s"
  "analyses (fst (snd (distributePayment e pid X s))) = analyses s"
  "stakeholders (fst (snd (distributePayment e pid X s))) = stakeholders s"
  "platformWallet (fst (snd (distributePayment e pid X s))) = platformWallet s"
  by (simp_all add: distributePayment_def Let_def split_beta execute_transfers_state
      distribution_createMany_def split: option.splits)

lemma distributePayment_log:
  assumes "payment_findUnique s pid = Some p"
  shows "snd (snd (distributePayment e pid X s)) = distribution_effects e pid X s"
proof (cases "platformWallet s = None")
  case True
  then show ?thesis by (simp add: distributePayment_def distribution_effects_def)
next
  case False
  then show ?thesis
    by (simp add: distributePayment_unfold [OF False assms] distribution_effects_def)
qed

lemma distribution_effects_cong:
  assumes "platformWallet s' = platformWallet s" and "stakeholders s' = stakeholders s"
  shows "distribution_effects e pid X s' = distribution_effects e pid X s"
  using assms execute_transfers_log_indep [of e pid 0 _ s' s]
  by (simp add: distribution_effects_def active_stakeholders_def)

text \<open>The completion branch, for an existing payment.\<close>

lemma handlePaymentWebhook_completed:
  fixes e :: env and sig :: "string option" and s :: state and pid :: string
    and p :: payment and h :: jsval
  assumes found: "payment_findUnique s pid = Some p" and hash: "h \<noteq> Other"
  defines "pl \<equiv> \<lparr>reference = Str pid, status = Str ''completed'', transaction_hash = h\<rparr>"
  defines "r \<equiv> handlePaymentWebhook e pl sig s"
  shows "payments (fst (snd r)) = map (\<lambda>q. if p_id q = pid then complete_payment e h q else q) (payments s)"
    and "stakeholders (fst (snd r)) = stakeholders s"
    and "platformWallet (fst (snd r)) = platformWallet s"
    and "hook_effects pid (fst (snd r)) = hook_effects pid s"
    and "snd (snd r) = PaymentUpdate pid COMPLETED # hook_effects pid s
                         @ distribution_effects e pid (toNumber e (p_amount p)) s"
proof -
  let ?s1 = "s\<lparr>payments := map (\<lambda>q. if p_id q = pid then complete_payment e h q else q) (payments s)\<rparr>"
  let ?pm = "complete_payment e h p"
  let ?s2 = "fst (processPaymentCompletion ?pm ?s1)"
  let ?d = "distributePayment e pid (toNumber e (p_amount ?pm)) ?s2"
  have pid: "p_id p = pid"
    using found by (auto simp: payment_findUnique_def find_Some_iff)
  have upd: "payment_update pid (complete_payment e h) s = Inr (?pm, ?s1)"
    using found by (simp add: payment_update_def)
  have r: "r = (fst ?d, fst (snd ?d),
               PaymentUpdate pid COMPLETED # snd (processPaymentCompletion ?pm ?s1) @ snd (snd ?d))"
    using hash by (simp add: r_def pl_def handlePaymentWebhook_def upd split_beta Let_def)
  have f2: "payment_findUnique ?s2 pid = Some ?pm"
  proof -
    have "payment_findUnique ?s2 pid = payment_findUnique ?s1 pid"
      by (simp add: payment_findUnique_def processPaymentCompletion_frame)
    also have "\<dots> = map_option (complete_payment e h) (payment_findUnique s pid)"
      by (rule payment_findUnique_updated) (simp_all add: complete_payment_fields)
    finally show ?thesis by (simp add: found)
  qed
  show "payments (fst (snd r)) = map (\<lambda>q. if p_id q = pid then complete_payment e h q else q) (payments s)"
    by (simp add: r distributePayment_frame processPaymentCompletion_frame)
  show "stakeholders (fst (snd r)) = stakeholders s"
    by (simp add: r distributePayment_frame processPaymentCompletion_frame)
  show "platformWallet (fst (snd r)) = platformWallet s"
    by (simp add: r distributePayment_frame processPaymentCompletion_frame)
  have h1: "hook_effects pid ?s1 = hook_effects pid s"
    by (rule hook_effects_cong) simp
  have "hook_effects pid (fst (snd r)) = hook_effects pid ?s2"
    by (rule hook_effects_cong) (simp add: r distributePayment_frame)
  also have "\<dots> = hook_effects pid ?s1"
    by (rule hook_effects_after_hook)
  finally show "hook_effects pid (fst (snd r)) = hook_effects pid s"
    by (simp only: h1)
  have d: "snd (snd ?d) = distribution_effects e pid (toNumber e (p_amount ?pm)) ?s2"
    using f2 by (rule distributePayment_log)
  have "distribution_effects e pid (toNumber e (p_amount p)) ?s2 =
      distribution_effects e pid (toNumber e (p_amount p)) s"
    by (rule distribution_effects_cong) (simp_all add: processPaymentCompletion_frame)
  with d have "snd (snd ?d) = distribution_effects e pid (toNumber e (p_amount p)) s"
    by (simp add: complete_payment_fields)
  then have d': "snd (snd (distributePayment e pid (toNumber e (p_amount p)) ?s2)) =
      distribution_effects e pid (toNumber e (p_amount p)) s"
    by (simp add: complete_payment_fields)
  show "snd (snd r) = PaymentUpdate pid COMPLETED # hook_effects pid s
                         @ distribution_effects e pid (toNumber e (p_amount p)) s"
    by (simp add: r processPaymentCompletion_log complete_payment_fields pid h1 d')
qed


lemma handlePaymentWebhook_refused_hash:
  assumes "payment_findUnique s pid = Some p"
  shows "handlePaymentWebhook e
           \<lparr>reference = Str pid, status = Str ''completed'', transaction_hash = Other\<rparr> sig s =
         (Inl PrismaValidationError, s, [])"
  by (simp add: handlePaymentWebhook_def)

text \<open>
  Claim C1, as amended. The handler does not read the current status of the payment.
  For an existing payment and a "completed" notification whose transaction hash Prisma
  accepts (a string, \<open>null\<close>, a missing field or a \<open>set\<close> operation), the notification
  sets status, transaction hash and completion time whatever the status was; a second
  delivery of the same payload leaves status and hash as the first left them,
  overwrites the completion time with the time of the second delivery, and performs
  the effects of the first delivery again: the payment update, the hook for the bound
  analysis and the distribution. A notification whose transaction hash Prisma refuses
  is answered with a validation error at both deliveries, and nothing is written.
\<close>

theorem handlePaymentWebhook_completed_twice:
  fixes e1 e2 :: env and sig :: "string option" and s :: state and paymentId :: string
    and p :: payment and h :: jsval
  assumes found: "payment_findUnique s paymentId = Some p"
  shows "let pl = \<lparr>reference = Str paymentId, status = Str ''completed'', transaction_hash = h\<rparr>;
             r1 = handlePaymentWebhook e1 pl sig s;
             r2 = handlePaymentWebhook e2 pl sig (fst (snd r1))
         in if h = Other
            then r1 = (Inl PrismaValidationError, s, []) \<and> r2 = (Inl PrismaValidationError, s, [])
            else payment_findUnique (fst (snd r1)) paymentId = Some (complete_payment e1 h p)
               \<and> payment_findUnique (fst (snd r2)) paymentId =
                   Some ((complete_payment e1 h p)\<lparr>p_completedAt := Some (now e2)\<rparr>)
               \<and> snd (snd r1) = PaymentUpdate paymentId COMPLETED # hook_effects paymentId s
                     @ distribution_effects e1 paymentId (toNumber e1 (p_amount p)) s
               \<and> snd (snd r2) = PaymentUpdate paymentId COMPLETED # hook_effects paymentId s
                     @ distribution_effects e2 paymentId (toNumber e2 (p_amount p)) s"
proof (cases "h = Other")
  case True
  show ?thesis
    unfolding Let_def using True
    by (simp add: handlePaymentWebhook_refused_hash [OF found])
next
  case hash: False
  let ?pl = "\<lparr>reference = Str paymentId, status = Str ''completed'', transaction_hash = h\<rparr>"
  let ?r1 = "handlePaymentWebhook e1 ?pl sig s"
  let ?s1 = "fst (snd ?r1)"
  let ?r2 = "handlePaymentWebhook e2 ?pl sig ?s1"
  let ?p1 = "complete_payment e1 h p"
  note first = handlePaymentWebhook_completed [OF found hash, of e1 sig]
  have found1: "payment_findUnique ?s1 paymentId = Some ?p1"
    using payment_findUnique_updated [of "complete_payment e1 h" ?s1 paymentId s] first(1)
    by (simp add: complete_payment_fields found)
  note second = handlePaymentWebhook_completed [OF found1 hash, of e2 sig]
  have found2: "payment_findUnique (fst (snd ?r2)) paymentId =
      Some (?p1\<lparr>p_completedAt := Some (now e2)\<rparr>)"
    using payment_findUnique_updated [of "complete_payment e2 h" "fst (snd ?r2)" paymentId ?s1]
      second(1)
    by (simp add: complete_payment_fields found1 complete_payment_again)
  have log1: "snd (snd ?r1) = PaymentUpdate paymentId COMPLETED # hook_effects paymentId s
                  @ distribution_effects e1 paymentId (toNumber e1 (p_amount p)) s"
    by (rule first(5))
  have "distribution_effects e2 paymentId (toNumber e2 (p_amount p)) ?s1 =
        distribution_effects e2 paymentId (toNumber e2 (p_amount p)) s"
    by (rule distribution_effects_cong) (simp_all add: first)
  then have log2: "snd (snd ?r2) = PaymentUpdate paymentId COMPLETED # hook_effects paymentId s
                  @ distribution_effects e2 paymentId (toNumber e2 (p_amount p)) s"
    using second(5) by (simp add: first(4) complete_payment_fields)
  show ?thesis
    unfolding Let_def using hash found1 found2 log1 log2 by simp
qed

lemma state0_payment: "payment_findUnique state0 ''p1'' = Some pay1"
  by (simp add: payment_findUnique_def state0_def pay1_def)

theorem handlePaymentWebhook_completed_twice_witness:
  "payment_findUnique state0 ''p1'' = Some pay1
   \<and> payment_findUnique
        (fst (snd (handlePaymentWebhook env2 completed_payload None
           (fst (snd (handlePaymentWebhook env1 completed_payload None state0)))))) ''p1'' =
       Some (pay1\<lparr>p_status := COMPLETED, p_transactionHash := Some ''0xabc'',
                  p_completedAt := Some 200\<rparr>)
   \<and> snd (snd (handlePaymentWebhook env2 completed_payload None
           (fst (snd (handlePaymentWebhook env1 completed_payload None state0))))) =
       [PaymentUpdate ''p1'' COMPLETED, AnalysisUpdate ''a1'' A_PROCESSING]
   \<and> handlePaymentWebhook env1
        \<lparr>reference = Str ''p1'', status = Str ''completed'', transaction_hash = Other\<rparr>
        None state0 = (Inl PrismaValidationError, state0, [])"
proof -
  have hook: "hook_effects ''p1'' state0 = [AnalysisUpdate ''a1'' A_PROCESSING]"
    by (simp add: hook_effects_def state0_def an1_def)
  have dist: "distribution_effects env2 ''p1'' X state0 = []" for X
    by (simp add: distribution_effects_def state0_def)
  have pm: "(complete_payment env1 (Str ''0xabc'') pay1)\<lparr>p_completedAt := Some (now env2)\<rparr> =
      pay1\<lparr>p_status := COMPLETED, p_transactionHash := Some ''0xabc'', p_completedAt := Some 200\<rparr>"
    by (simp add: complete_payment_def set_transactionHash_def env1_fields)
  from handlePaymentWebhook_completed_twice [OF state0_payment, of "Str ''0xabc''" env1 None env2]
  have accepted: "payment_findUnique
        (fst (snd (handlePaymentWebhook env2 completed_payload None
           (fst (snd (handlePaymentWebhook env1 completed_payload None state0)))))) ''p1'' =
       Some (pay1\<lparr>p_status := COMPLETED, p_transactionHash := Some ''0xabc'',
                  p_completedAt := Some 200\<rparr>)
     \<and> snd (snd (handlePaymentWebhook env2 completed_payload None
           (fst (snd (handlePaymentWebhook env1 completed_payload None state0))))) =
       [PaymentUpdate ''p1'' COMPLETED, AnalysisUpdate ''a1'' A_PROCESSING]"
    unfolding Let_def by (simp add: completed_payload_def hook dist pm)
  from handlePaymentWebhook_completed_twice [OF state0_payment, of Other env1 None env2]
  have refused: "handlePaymentWebhook env1
        \<lparr>reference = Str ''p1'', status = Str ''completed'', transaction_hash = Other\<rparr>
        None state0 = (Inl PrismaValidationError, state0, [])"
    unfolding Let_def by simp
  from state0_payment accepted refused show ?thesis by simp
qed

text \<open>
  Claim C1 as stated fails. After the first delivery the payment \<open>p1\<close> is \<open>COMPLETED\<close>
  with completion time 100; the second delivery, at time 200, changes the completion
  time to 200 and runs the payment update and the analysis hook again. With the
  platform wallet initialised the second delivery, even at the same time, also adds
  three more distribution rows and attempts three more transfers.
\<close>

theorem handlePaymentWebhook_repeat_counterexample:
  "fst (snd (handlePaymentWebhook env1 completed_payload None state0)) = state_completed
   \<and> map p_status (payments state_completed) = [COMPLETED]
   \<and> map p_completedAt (payments state_completed) = [Some 100]
   \<and> map p_completedAt
        (payments (fst (snd (handlePaymentWebhook env2 completed_payload None state_completed)))) =
       [Some 200]
   \<and> snd (snd (handlePaymentWebhook env2 completed_payload None state_completed)) =
       [PaymentUpdate ''p1'' COMPLETED, AnalysisUpdate ''a1'' A_PROCESSING]
   \<and> fst (snd (handlePaymentWebhook env1 completed_payload None state_w)) = state_paid_completed
   \<and> length (paymentDistributions state_paid_completed) = 3
   \<and> length (paymentDistributions
        (fst (snd (handlePaymentWebhook env1 completed_payload None state_paid_completed)))) = 6
   \<and> filter is_transfer
        (snd (snd (handlePaymentWebhook env1 completed_payload None state_paid_completed))) =
       [WalletCreateTransfer ''w_platform'' 15, WalletCreateTransfer ''w_data'' (25 / 4),
        WalletCreateTransfer ''w_research'' (15 / 4)]"
proof -
  note defs = handlePaymentWebhook_def completed_payload_def payment_update_def
    payment_findUnique_def state_w_def state0_def pay1_def an1_def complete_payment_def
    set_transactionHash_def processPaymentCompletion_def distributePayment_def
    active_stakeholders_def pending_distribution_def distribution_createMany_def
    transfer_one_def distribution_updateMany_def distribution_matches_def
    platform_st_def retired_st_def data_st_def research_st_def
    env1_fields env1_toNumber env1_shares state_completed_def state_paid_def
    state_paid_completed_def
  have a: "fst (snd (handlePaymentWebhook env1 completed_payload None state0)) = state_completed"
    by (simp add: defs)
  have b: "map p_status (payments state_completed) = [COMPLETED]"
    and c: "map p_completedAt (payments state_completed) = [Some 100]"
    by (simp_all add: state_completed_def)
  have d: "map p_completedAt
        (payments (fst (snd (handlePaymentWebhook env2 completed_payload None state_completed)))) =
       [Some 200]"
    by (simp add: defs)
  have e: "snd (snd (handlePaymentWebhook env2 completed_payload None state_completed)) =
       [PaymentUpdate ''p1'' COMPLETED, AnalysisUpdate ''a1'' A_PROCESSING]"
    by (simp add: defs)
  have f: "fst (snd (handlePaymentWebhook env1 completed_payload None state_w)) = state_paid_completed"
    by (simp add: defs)
  have g: "length (paymentDistributions state_paid_completed) = 3"
    by (simp add: state_paid_completed_def state_paid_def)
  have h: "length (paymentDistributions
        (fst (snd (handlePaymentWebhook env1 completed_payload None state_paid_completed)))) = 6"
    by (simp add: defs)
  have i: "filter is_transfer
        (snd (snd (handlePaymentWebhook env1 completed_payload None state_paid_completed))) =
       [WalletCreateTransfer ''w_platform'' 15, WalletCreateTransfer ''w_data'' (25 / 4),
        WalletCreateTransfer ''w_research'' (15 / 4)]"
    by (simp add: defs)
  from a b c d e f g h i show ?thesis by simp
qed

end
